theory Spec2Isabelle
  imports Main
begin

section \<open>JavaScript values, errors and strings\<close>

text \<open>
  The server is \<^verbatim>\<open>src/index.ts\<close>. Values travelling through the dispatcher
  (tool arguments, tool results) are JSON-like JavaScript values.
\<close>

datatype js_value =
    JString string
  | JNumber int
  | JBoolean bool
  | JNull
  | JObject "(string \<times> js_value) list"
  | JArray "js_value list"

text \<open>
  A thrown value is an \<^verbatim>\<open>Error\<close> object: its \<^verbatim>\<open>name\<close> and its
  \<^verbatim>\<open>message\<close>. \<^verbatim>\<open>new Error(m)\<close> has the name \<^verbatim>\<open>Error\<close>. The driver and the
  tools throw such objects; a thrown value of another kind is not modelled.
\<close>

datatype js_error = JsError (err_name: string) (message: string)

definition new_Error :: "string \<Rightarrow> js_error" where
  "new_Error m = JsError ''Error'' m"

text \<open>\<^verbatim>\<open>Error.prototype.toString\<close>, which a template literal \<^verbatim>\<open>`${error}`\<close> calls.\<close>

definition error_toString :: "js_error \<Rightarrow> string" where
  "error_toString e =
     (if err_name e = [] then message e
      else if message e = [] then err_name e
      else err_name e @ '': '' @ message e)"

text \<open>Decimal rendering of a number inside a template literal.\<close>

definition digit_char :: "nat \<Rightarrow> char" where
  "digit_char d = char_of (48 + d)"

function show_nat :: "nat \<Rightarrow> string" where
  "show_nat n = (if n < 10 then [digit_char n] else show_nat (n div 10) @ [digit_char (n mod 10)])"
  by pat_completeness auto
termination
  by (relation "measure (\<lambda>n. n)") auto

declare show_nat.simps [simp del]

definition show_int :: "int \<Rightarrow> string" where
  "show_int i = (if i < 0 then CHR ''-'' # show_nat (nat (- i)) else show_nat (nat i))"

text \<open>
  \<^verbatim>\<open>s.toLowerCase()\<close> on the characters a \<^typ>\<open>char\<close> can hold that matter for a
  comparison with \<^verbatim>\<open>'true'\<close>: the ASCII capitals.
\<close>

definition toLowerChar :: "char \<Rightarrow> char" where
  "toLowerChar c =
     (if 65 \<le> (of_char c :: nat) \<and> (of_char c :: nat) \<le> 90 then char_of ((of_char c :: nat) + 32) else c)"

definition toLowerCase :: "string \<Rightarrow> string" where
  "toLowerCase s = map toLowerChar s"

subsection \<open>\<^verbatim>\<open>parseInt(s, 10)\<close>\<close>

text \<open>
  \<^verbatim>\<open>parseInt\<close> with radix 10 skips leading white space, reads an optional sign, and
  takes the longest prefix of decimal digits; with no digit the result is \<^verbatim>\<open>NaN\<close>
  (\<^term>\<open>None\<close> here). Whatever follows the digits is ignored. The result is a double;
  the integer read is kept exact here, which agrees with the double on every comparison
  against 1 and 65535 and on every value in that range. A \<^typ>\<open>char\<close> is a code unit
  below 256, so the white space characters are those of that range.
\<close>

definition isStrWhiteSpaceChar :: "char \<Rightarrow> bool" where
  "isStrWhiteSpaceChar c = ((of_char c :: nat) \<in> {9, 10, 11, 12, 13, 32, 160})"

definition is_digit :: "char \<Rightarrow> bool" where
  "is_digit c = (48 \<le> (of_char c :: nat) \<and> (of_char c :: nat) \<le> 57)"

definition digit_val :: "char \<Rightarrow> nat" where
  "digit_val c = (of_char c :: nat) - 48"

definition digits_val :: "string \<Rightarrow> nat" where
  "digits_val ds = foldl (\<lambda>a c. 10 * a + digit_val c) 0 ds"

definition parseInt10 :: "string \<Rightarrow> int option" where
  "parseInt10 s =
     (let S = dropWhile isStrWhiteSpaceChar s;
          sign = (case S of c # _ \<Rightarrow> (if c = CHR ''-'' then (- 1 :: int) else 1) | [] \<Rightarrow> 1);
          S' = (case S of c # r \<Rightarrow> (if c = CHR ''+'' \<or> c = CHR ''-'' then r else S) | [] \<Rightarrow> S);
          Z = takeWhile is_digit S'
      in if Z = [] then None else Some (sign * int (digits_val Z)))"

section \<open>Config resolution: \<^verbatim>\<open>createSqlConfig\<close>\<close>

text \<open>
  \<^verbatim>\<open>process.env\<close> is a partial map from variable names to strings. A variable that is
  unset reads as \<^verbatim>\<open>undefined\<close>; \<^verbatim>\<open>undefined\<close> and the empty string are both falsy.
\<close>

type_synonym environment = "string \<Rightarrow> string option"

text \<open>
  A number that the code only computes and passes on (the timeouts): an integer of
  magnitude up to \<open>2 ^ 53\<close>, which a double holds exactly; a value beyond that range,
  which a double rounds and which is not followed further; or \<^verbatim>\<open>NaN\<close>.
\<close>

datatype js_num = Num int | Inexact | NaN

definition to_num :: "int \<Rightarrow> js_num" where
  "to_num n = (if \<bar>n\<bar> \<le> 2 ^ 53 then Num n else Inexact)"

definition truthy :: "string option \<Rightarrow> bool" where
  "truthy v = (case v of None \<Rightarrow> False | Some s \<Rightarrow> s \<noteq> [])"

record sql_options =
  encrypt :: bool
  trustServerCertificate :: bool
  enableArithAbort :: bool
  cryptoMinVersion :: "string option"

record sql_pool_options =
  pool_max :: nat
  pool_min :: nat
  idleTimeoutMillis :: nat
  acquireTimeoutMillis :: js_num

text \<open>
  The four \<^verbatim>\<open>process.env.X!\<close> fields are copied as they are: the \<^verbatim>\<open>!\<close> is a
  compile-time assertion only, so an unset variable gives \<^verbatim>\<open>undefined\<close>
  (\<^term>\<open>None\<close>).
\<close>

record sql_config =
  server :: "string option"
  port :: int
  database :: "string option"
  user :: "string option"
  password :: "string option"
  options :: sql_options
  connectionTimeout :: js_num
  requestTimeout :: js_num
  pool :: sql_pool_options

definition env_lower_is_true :: "string option \<Rightarrow> bool" where
  "env_lower_is_true v = (case v of None \<Rightarrow> False | Some s \<Rightarrow> toLowerCase s = ''true'')"

text \<open>Line 44: \<^verbatim>\<open>process.env.PORT ? parseInt(process.env.PORT, 10) : 1433\<close>.\<close>

definition resolve_port :: "environment \<Rightarrow> int option" where
  "resolve_port env =
     (case env ''PORT'' of
        None \<Rightarrow> Some 1433
      | Some s \<Rightarrow> if s \<noteq> [] then parseInt10 s else Some 1433)"

text \<open>Line 43, the same for \<^verbatim>\<open>CONNECTION_TIMEOUT\<close>, default 30.\<close>

definition resolve_timeout :: "environment \<Rightarrow> js_num" where
  "resolve_timeout env =
     (case env ''CONNECTION_TIMEOUT'' of
        None \<Rightarrow> Num 30
      | Some s \<Rightarrow>
          if s \<noteq> [] then (case parseInt10 s of None \<Rightarrow> NaN | Some n \<Rightarrow> to_num n)
          else Num 30)"

text \<open>\<^verbatim>\<open>${process.env.PORT}\<close> inside the message: an unset variable prints as \<^verbatim>\<open>undefined\<close>.\<close>

definition env_to_text :: "string option \<Rightarrow> string" where
  "env_to_text v = (case v of None \<Rightarrow> ''undefined'' | Some s \<Rightarrow> s)"

definition invalid_port_message :: "environment \<Rightarrow> string" where
  "invalid_port_message env =
     ''Invalid port number: '' @ env_to_text (env ''PORT'') @ ''. Must be between 1 and 65535.''"

text \<open>
  \<^verbatim>\<open>adjustedTimeout * 1000\<close>: the product of two integers that a double holds exactly
  is exact when it stays within \<open>2 ^ 53\<close>.
\<close>

definition times1000 :: "js_num \<Rightarrow> js_num" where
  "times1000 t = (case t of Num n \<Rightarrow> to_num (n * 1000) | Inexact \<Rightarrow> Inexact | NaN \<Rightarrow> NaN)"

definition createSqlConfig :: "environment \<Rightarrow> string \<Rightarrow> js_error + sql_config" where
  "createSqlConfig env platform =
     (let trustCert = env_lower_is_true (env ''TRUST_SERVER_CERTIFICATE'');
          connTimeout = resolve_timeout env;
          port_opt = resolve_port env
      in case port_opt of
           None \<Rightarrow> Inl (new_Error (invalid_port_message env))
         | Some p \<Rightarrow>
             if p < 1 \<or> p > 65535 then Inl (new_Error (invalid_port_message env))
             else
               (let isMacOS = (platform = ''darwin'');
                    adjustedTimeout =
                      (if isMacOS \<and> \<not> truthy (env ''CONNECTION_TIMEOUT'') then Num 60 else connTimeout)
                in Inr \<lparr> server = env ''SERVER_NAME'',
                         port = p,
                         database = env ''DATABASE_NAME'',
                         user = env ''SQL_USERNAME'',
                         password = env ''SQL_PASSWORD'',
                         options = \<lparr> encrypt = True,
                                     trustServerCertificate = (if isMacOS then True else trustCert),
                                     enableArithAbort = True,
                                     cryptoMinVersion = (if isMacOS then Some ''TLSv1.2'' else None) \<rparr>,
                         connectionTimeout = times1000 adjustedTimeout,
                         requestTimeout = times1000 adjustedTimeout,
                         pool = \<lparr> pool_max = 10, pool_min = 0, idleTimeoutMillis = 30000,
                                  acquireTimeoutMillis = times1000 adjustedTimeout \<rparr> \<rparr>))"

section \<open>Pool manager: \<^verbatim>\<open>ensureSqlConnection\<close>\<close>

text \<open>
  A connection pool object of the driver: an identity, its \<^verbatim>\<open>connected\<close> flag, and
  what its \<^verbatim>\<open>close()\<close> does when called (the error it throws, if any).
\<close>

record pool_obj =
  pool_id :: nat
  connected :: bool
  close_error :: "js_error option"

datatype tool =
    InsertDataTool | ReadDataTool | UpdateDataTool | CreateTableTool
  | CreateIndexTool | ListTableTool | DropTableTool | DescribeTableTool

type_synonym tool_args = "(string \<times> js_value) list option"

text \<open>
  What the program does to the outside, in order: a call of \<^verbatim>\<open>sql.connect\<close>, a call of
  \<^verbatim>\<open>close()\<close> on a pool, a \<^verbatim>\<open>setTimeout\<close> wait in milliseconds, the
  \<^verbatim>\<open>console.error\<close> line of a failed attempt (attempt number and message), and a
  call of a tool's original \<^verbatim>\<open>run\<close>. Output of \<^verbatim>\<open>debugLog\<close> (written only when
  \<^verbatim>\<open>DEBUG\<close> is set, and changing nothing) is left out.
\<close>

datatype event =
    Connect sql_config
  | Close nat
  | Sleep nat
  | AttemptFailed nat string
  | Run tool tool_args

text \<open>
  The collaborators that are not part of \<^verbatim>\<open>index.ts\<close>: the driver's
  \<^verbatim>\<open>sql.connect\<close> (its outcome may differ from call to call, so it is indexed by the
  number of calls made before), the bodies of the tools' \<^verbatim>\<open>run\<close> methods (indexed
  the same way), and \<^verbatim>\<open>JSON.stringify\<close>, which can throw.
\<close>

record externals =
  sql_connect :: "nat \<Rightarrow> sql_config \<Rightarrow> js_error + pool_obj"
  originalRun :: "tool \<Rightarrow> nat \<Rightarrow> tool_args \<Rightarrow> pool_obj option \<Rightarrow> js_error + js_value"
  JSON_stringify :: "js_value \<Rightarrow> js_error + string"

text \<open>
  The process state: the environment and platform, the module-level variables
  \<^verbatim>\<open>isReadOnly\<close>, \<^verbatim>\<open>globalSqlPool\<close> and \<^verbatim>\<open>connectionRetryCount\<close>, the pools that
  carry the error observer of lines 231--236, the two call counters and the trace.
\<close>

record world =
  env :: environment
  platform :: string
  isReadOnly :: bool
  globalSqlPool :: "pool_obj option"
  connectionRetryCount :: nat
  observers :: "nat list"
  connects :: nat
  runs :: nat
  events :: "event list"

definition MAX_RETRY_ATTEMPTS :: nat where
  "MAX_RETRY_ATTEMPTS = 3"

text \<open>Line 118: \<^verbatim>\<open>process.env.READONLY === "true"\<close>, read once at module load.\<close>

definition startup :: "environment \<Rightarrow> string \<Rightarrow> world" where
  "startup e plat =
     \<lparr> env = e, platform = plat, isReadOnly = (e ''READONLY'' = Some ''true''),
       globalSqlPool = None, connectionRetryCount = 0, observers = [],
       connects = 0, runs = 0, events = [] \<rparr>"

definition emit :: "event \<Rightarrow> world \<Rightarrow> world" where
  "emit ev w = w\<lparr>events := events w @ [ev]\<rparr>"

text \<open>Line 245: \<^verbatim>\<open>Math.min(1000 * Math.pow(2, attempt - 1), 10000)\<close>.\<close>

definition backoff_delay :: "nat \<Rightarrow> nat" where
  "backoff_delay attempt = min (1000 * 2 ^ (attempt - 1)) 10000"

text \<open>
  Lines 224--225, the part of the \<^verbatim>\<open>try\<close> block that can throw: the config is
  resolved, and only if that succeeds is \<^verbatim>\<open>sql.connect\<close> called.
\<close>

definition try_connect :: "externals \<Rightarrow> world \<Rightarrow> (js_error + pool_obj) \<times> world" where
  "try_connect x w =
     (case createSqlConfig (env w) (platform w) of
        Inl e \<Rightarrow> (Inl e, w)
      | Inr cfg \<Rightarrow> (sql_connect x (connects w) cfg,
                    emit (Connect cfg) (w\<lparr>connects := connects w + 1\<rparr>)))"

text \<open>Line 253: \<^verbatim>\<open>lastError?.message || 'Unknown error'\<close>; an empty message is falsy.\<close>

definition last_error_text :: "js_error option \<Rightarrow> string" where
  "last_error_text le =
     (case le of None \<Rightarrow> ''Unknown error''
      | Some e \<Rightarrow> if message e = [] then ''Unknown error'' else message e)"

definition retries_exhausted :: "js_error option \<Rightarrow> js_error" where
  "retries_exhausted le =
     new_Error (''Failed to connect after '' @ show_nat MAX_RETRY_ATTEMPTS
                @ '' attempts. Last error: '' @ last_error_text le)"

text \<open>The \<^verbatim>\<open>for\<close> loop of lines 220--250 followed by the \<^verbatim>\<open>throw\<close> of line 253.\<close>

function connect_loop :: "externals \<Rightarrow> nat \<Rightarrow> js_error option \<Rightarrow> world \<Rightarrow> (js_error + unit) \<times> world" where
  "connect_loop x attempt lastError w =
     (if attempt \<le> MAX_RETRY_ATTEMPTS then
        (case try_connect x w of
           (Inr p, w1) \<Rightarrow>
             (Inr (), w1\<lparr>globalSqlPool := Some p, connectionRetryCount := 0,
                         observers := pool_id p # observers w1\<rparr>)
         | (Inl err, w1) \<Rightarrow>
             (let w2 = emit (AttemptFailed attempt (message err)) w1;
                  w3 = (if attempt < MAX_RETRY_ATTEMPTS then emit (Sleep (backoff_delay attempt)) w2 else w2)
              in connect_loop x (attempt + 1) (Some err) w3))
      else (Inl (retries_exhausted lastError), w))"
  by pat_completeness auto
termination
  by (relation "measure (\<lambda>(x, attempt, lastError, w). Suc MAX_RETRY_ATTEMPTS - attempt)") auto

declare connect_loop.simps [simp del]

text \<open>Lines 206--215: the old pool is closed, an error of \<^verbatim>\<open>close()\<close> is swallowed.\<close>

definition close_old_pool :: "world \<Rightarrow> world" where
  "close_old_pool w =
     (case globalSqlPool w of
        None \<Rightarrow> w
      | Some p \<Rightarrow> (emit (Close (pool_id p)) w)\<lparr>globalSqlPool := None\<rparr>)"

definition ensureSqlConnection :: "externals \<Rightarrow> world \<Rightarrow> (js_error + unit) \<times> world" where
  "ensureSqlConnection x w =
     (case globalSqlPool w of
        Some p \<Rightarrow> if connected p then (Inr (), w) else connect_loop x 1 None (close_old_pool w)
      | None \<Rightarrow> connect_loop x 1 None (close_old_pool w))"

text \<open>
  The observer registered at lines 231--236, run when pool \<open>pid\<close> emits \<^verbatim>\<open>error\<close>:
  it assigns \<^verbatim>\<open>null\<close> to the module variable. A pool without the observer does nothing
  here.
\<close>

definition pool_error_fires :: "nat \<Rightarrow> world \<Rightarrow> world" where
  "pool_error_fires pid w = (if pid \<in> set (observers w) then w\<lparr>globalSqlPool := None\<rparr> else w)"

section \<open>Registry, listing and dispatch\<close>

text \<open>
  Modelled from the spec: the \<^verbatim>\<open>name\<close> constants of the tool classes under
  \<^verbatim>\<open>src/tools/\<close>, which are imported by \<^verbatim>\<open>index.ts\<close> but are not among the source
  files. The names are those the specification and the error text of line 157 use.
\<close>

fun toolName :: "tool \<Rightarrow> string" where
  "toolName InsertDataTool = ''insert_data''"
| "toolName ReadDataTool = ''read_data''"
| "toolName UpdateDataTool = ''update_data''"
| "toolName CreateTableTool = ''create_table''"
| "toolName CreateIndexTool = ''create_index''"
| "toolName ListTableTool = ''list_table''"
| "toolName DropTableTool = ''drop_table''"
| "toolName DescribeTableTool = ''describe_table''"

text \<open>Lines 122--126, the \<^verbatim>\<open>ListToolsRequestSchema\<close> handler.\<close>

definition ListTools :: "world \<Rightarrow> tool list" where
  "ListTools w =
     (if isReadOnly w then [ListTableTool, ReadDataTool, DescribeTableTool]
      else [InsertDataTool, ReadDataTool, DescribeTableTool, UpdateDataTool,
            CreateTableTool, CreateIndexTool, DropTableTool, ListTableTool])"

text \<open>The \<^verbatim>\<open>case\<close> labels of the \<^verbatim>\<open>switch\<close> at lines 132--168, in source order; the first label equal to the name is taken.\<close>

definition switch_cases :: "tool list" where
  "switch_cases = [InsertDataTool, ReadDataTool, UpdateDataTool, CreateTableTool,
                   CreateIndexTool, ListTableTool, DropTableTool, DescribeTableTool]"

definition switch_on :: "string \<Rightarrow> tool option" where
  "switch_on name = find (\<lambda>t. toolName t = name) switch_cases"

record envelope =
  content_text :: string
  isError :: "bool option"

definition error_envelope :: "string \<Rightarrow> envelope" where
  "error_envelope t = \<lparr> content_text = t, isError = Some True \<rparr>"

definition success_envelope :: "string \<Rightarrow> envelope" where
  "success_envelope t = \<lparr> content_text = t, isError = None \<rparr>"

text \<open>
  A tool's original \<^verbatim>\<open>run\<close> body, called with the arguments as given; what it
  sees of this module is the pool reference.
\<close>

definition unwrapped_run :: "externals \<Rightarrow> tool \<Rightarrow> tool_args \<Rightarrow> world \<Rightarrow> (js_error + js_value) \<times> world" where
  "unwrapped_run x t args w =
     (originalRun x t (runs w) args (globalSqlPool w),
      emit (Run t args) (w\<lparr>runs := runs w + 1\<rparr>))"

text \<open>
  Lines 257--263: after \<^verbatim>\<open>wrapToolRun\<close>, a tool's \<^verbatim>\<open>run\<close> awaits
  \<^verbatim>\<open>ensureSqlConnection\<close> and then calls the original body; a throw of
  \<^verbatim>\<open>ensureSqlConnection\<close> leaves the function before the body is reached.
\<close>

definition wrapped_run :: "externals \<Rightarrow> tool \<Rightarrow> tool_args \<Rightarrow> world \<Rightarrow> (js_error + js_value) \<times> world" where
  "wrapped_run x t args w =
     (case ensureSqlConnection x w of
        (Inl e, w1) \<Rightarrow> (Inl e, w1)
      | (Inr u, w1) \<Rightarrow> unwrapped_run x t args w1)"

text \<open>Line 265: the tools that \<^verbatim>\<open>wrapToolRun\<close> is applied to at module load.\<close>

definition wrapped_tools :: "tool list" where
  "wrapped_tools = [InsertDataTool, ReadDataTool, UpdateDataTool, CreateTableTool,
                    CreateIndexTool, DropTableTool, ListTableTool, DescribeTableTool]"

definition tool_run :: "externals \<Rightarrow> tool \<Rightarrow> tool_args \<Rightarrow> world \<Rightarrow> (js_error + js_value) \<times> world" where
  "tool_run x t args w =
     (if t \<in> set wrapped_tools then wrapped_run x t args w else unwrapped_run x t args w)"

text \<open>\<^verbatim>\<open>typeof args.tableName !== "string"\<close> at line 155; a missing key reads as \<^verbatim>\<open>undefined\<close>.\<close>

definition is_string_field :: "(string \<times> js_value) list \<Rightarrow> string \<Rightarrow> bool" where
  "is_string_field obj k = (case map_of obj k of Some (JString s) \<Rightarrow> True | _ \<Rightarrow> False)"

definition describe_args_invalid :: "tool_args \<Rightarrow> bool" where
  "describe_args_invalid args =
     (case args of None \<Rightarrow> True | Some obj \<Rightarrow> \<not> is_string_field obj ''tableName'')"

definition missing_tableName_text :: string where
  "missing_tableName_text = ''Missing or invalid '' @ [CHR 0x27] @ ''tableName'' @ [CHR 0x27] @ '' argument for describe_table tool.''"

definition unknown_tool_text :: "string \<Rightarrow> string" where
  "unknown_tool_text name = ''Unknown tool: '' @ name"

text \<open>The body of the \<^verbatim>\<open>try\<close> block, lines 131--171: it returns an envelope or throws.\<close>

definition CallTool_try :: "externals \<Rightarrow> string \<Rightarrow> tool_args \<Rightarrow> world \<Rightarrow> (js_error + envelope) \<times> world" where
  "CallTool_try x name args w =
     (case switch_on name of
        None \<Rightarrow> (Inr (error_envelope (unknown_tool_text name)), w)
      | Some t \<Rightarrow>
          if t = DescribeTableTool \<and> describe_args_invalid args
          then (Inr (error_envelope missing_tableName_text), w)
          else
            (case tool_run x t args w of
               (Inl e, w1) \<Rightarrow> (Inl e, w1)
             | (Inr r, w1) \<Rightarrow>
                 (case JSON_stringify x r of
                    Inl e \<Rightarrow> (Inl e, w1)
                  | Inr s \<Rightarrow> (Inr (success_envelope s), w1))))"

text \<open>The \<^verbatim>\<open>CallToolRequestSchema\<close> handler, lines 128--178, with its \<^verbatim>\<open>catch\<close>.\<close>

definition CallTool :: "externals \<Rightarrow> string \<Rightarrow> tool_args \<Rightarrow> world \<Rightarrow> envelope \<times> world" where
  "CallTool x name args w =
     (case CallTool_try x name args w of
        (Inl e, w1) \<Rightarrow> (error_envelope (''Error occurred: '' @ error_toString e), w1)
      | (Inr ev, w1) \<Rightarrow> (ev, w1))"

text \<open>
  What the handler makes of a tool's outcome, lines 169--177: a returned value is
  stringified into a success envelope; a throw, of the tool or of \<^verbatim>\<open>JSON.stringify\<close>,
  is caught and becomes an error envelope.
\<close>

definition wrap_outcome :: "externals \<Rightarrow> (js_error + js_value) \<times> world \<Rightarrow> envelope \<times> world" where
  "wrap_outcome x rw =
     (case rw of
        (Inl e, w1) \<Rightarrow> (error_envelope (''Error occurred: '' @ error_toString e), w1)
      | (Inr r, w1) \<Rightarrow>
          (case JSON_stringify x r of
             Inl e \<Rightarrow> (error_envelope (''Error occurred: '' @ error_toString e), w1)
           | Inr s \<Rightarrow> (success_envelope s, w1)))"

section \<open>Observations used in the statements\<close>

text \<open>Parts of a trace, and the events a run adds to it.\<close>

fun is_connect :: "event \<Rightarrow> bool" where
  "is_connect (Connect c) = True"
| "is_connect _ = False"

fun is_run :: "event \<Rightarrow> bool" where
  "is_run (Run t a) = True"
| "is_run _ = False"

fun sleep_of :: "event \<Rightarrow> nat list" where
  "sleep_of (Sleep d) = [d]"
| "sleep_of _ = []"

fun failed_attempt_of :: "event \<Rightarrow> nat list" where
  "failed_attempt_of (AttemptFailed n m) = [n]"
| "failed_attempt_of _ = []"

definition connect_events :: "event list \<Rightarrow> event list" where
  "connect_events es = filter is_connect es"

definition run_events :: "event list \<Rightarrow> event list" where
  "run_events es = filter is_run es"

definition sleeps :: "event list \<Rightarrow> nat list" where
  "sleeps es = concat (map sleep_of es)"

definition failed_attempts :: "event list \<Rightarrow> nat list" where
  "failed_attempts es = concat (map failed_attempt_of es)"

definition new_events :: "world \<Rightarrow> world \<Rightarrow> event list" where
  "new_events w w' = drop (length (events w)) (events w')"

text \<open>
  The outcome of the \<open>k\<close>-th further attempt of a connection sequence that starts in
  \<open>w\<close> (\<open>k = 0\<close> is the next one), all attempts before it having failed: the config
  error if the config does not resolve, else what the driver answers to that call.
\<close>

definition attempt_outcome :: "externals \<Rightarrow> world \<Rightarrow> nat \<Rightarrow> js_error + pool_obj" where
  "attempt_outcome x w k =
     (case createSqlConfig (env w) (platform w) of
        Inl e \<Rightarrow> Inl e
      | Inr cfg \<Rightarrow> sql_connect x (connects w + k) cfg)"

text \<open>The trace of one attempt's \<^verbatim>\<open>try\<close> block: a driver call if the config resolves.\<close>

definition attempt_events :: "world \<Rightarrow> event list" where
  "attempt_events w =
     (case createSqlConfig (env w) (platform w) of Inl e \<Rightarrow> [] | Inr cfg \<Rightarrow> [Connect cfg])"

text \<open>
  The state after one attempt's \<^verbatim>\<open>try\<close> block has called the driver (or has not,
  the config not resolving), after the \<^verbatim>\<open>catch\<close> block of a failed attempt
  (lines 239--249), and after the assignments of a successful one (lines 225--236).
\<close>

definition attempt_state :: "world \<Rightarrow> world" where
  "attempt_state w =
     (case createSqlConfig (env w) (platform w) of
        Inl e \<Rightarrow> w
      | Inr cfg \<Rightarrow> emit (Connect cfg) (w\<lparr>connects := connects w + 1\<rparr>))"

definition fail_step :: "nat \<Rightarrow> js_error \<Rightarrow> world \<Rightarrow> world" where
  "fail_step a err w =
     (let w2 = emit (AttemptFailed a (message err)) (attempt_state w)
      in if a < MAX_RETRY_ATTEMPTS then emit (Sleep (backoff_delay a)) w2 else w2)"

definition install_pool :: "pool_obj \<Rightarrow> world \<Rightarrow> world" where
  "install_pool p w = w\<lparr>globalSqlPool := Some p, connectionRetryCount := 0,
                         observers := pool_id p # observers w\<rparr>"

text \<open>The port check of line 47 on the value of line 44.\<close>

definition port_invalid :: "environment \<Rightarrow> bool" where
  "port_invalid e = (case resolve_port e of None \<Rightarrow> True | Some p \<Rightarrow> p < 1 \<or> 65535 < p)"

text \<open>The operations the specification tags as writing.\<close>

definition write_tools :: "tool list" where
  "write_tools = [InsertDataTool, UpdateDataTool, CreateTableTool, CreateIndexTool, DropTableTool]"

section \<open>Concrete environments, drivers and states\<close>

definition example_env :: environment where
  "example_env = [''SERVER_NAME'' \<mapsto> ''db.example.net'', ''DATABASE_NAME'' \<mapsto> ''shop'',
                  ''SQL_USERNAME'' \<mapsto> ''reader'', ''SQL_PASSWORD'' \<mapsto> ''secret'']"

definition readonly_env :: environment where
  "readonly_env = example_env(''READONLY'' \<mapsto> ''true'')"

definition bad_port_env :: environment where
  "bad_port_env = example_env(''PORT'' \<mapsto> ''70000'')"

definition example_pool :: "nat \<Rightarrow> pool_obj" where
  "example_pool k = \<lparr> pool_id = k, connected = True, close_error = None \<rparr>"

definition stale_pool :: pool_obj where
  "stale_pool = \<lparr> pool_id = 7, connected = False,
                  close_error = Some (JsError ''ConnectionError'' ''Connection is closed.'') \<rparr>"

definition example_stringify :: "js_value \<Rightarrow> js_error + string" where
  "example_stringify v = (case v of JString t \<Rightarrow> Inr ([CHR 0x22] @ t @ [CHR 0x22]) | _ \<Rightarrow> Inr ''null'')"

text \<open>A driver that always connects, one that never does, and one that connects at its third call.\<close>

definition driver_up :: externals where
  "driver_up = \<lparr> sql_connect = (\<lambda>k cfg. Inr (example_pool k)),
                 originalRun = (\<lambda>t n a p. Inr (JString ''done'')),
                 JSON_stringify = example_stringify \<rparr>"

definition driver_down :: externals where
  "driver_down = \<lparr> sql_connect = (\<lambda>k cfg. Inl (JsError ''ConnectionError'' ''Failed to connect to db.example.net:1433'')),
                   originalRun = (\<lambda>t n a p. Inr (JString ''done'')),
                   JSON_stringify = example_stringify \<rparr>"

definition driver_third :: externals where
  "driver_third = \<lparr> sql_connect = (\<lambda>k cfg. if k < 2 then Inl (JsError ''ConnectionError'' ''timeout'') else Inr (example_pool k)),
                    originalRun = (\<lambda>t n a p. Inl (JsError ''RequestError'' ''Invalid object name'')),
                    JSON_stringify = example_stringify \<rparr>"

text \<open>
  A driver that keeps one pool object and hands that same object back at every call.
\<close>

definition driver_global :: externals where
  "driver_global = \<lparr> sql_connect = (\<lambda>k cfg. Inr (example_pool 7)),
                     originalRun = (\<lambda>t n a p. Inr (JString ''done'')),
                     JSON_stringify = example_stringify \<rparr>"

section \<open>Decimal strings and \<^verbatim>\<open>parseInt\<close>\<close>

lemma is_digit_digit_char: "d < 10 \<Longrightarrow> is_digit (digit_char d)"
  by (simp add: is_digit_def digit_char_def)

lemma digit_val_digit_char: "d < 10 \<Longrightarrow> digit_val (digit_char d) = d"
  by (simp add: digit_val_def digit_char_def)

lemma show_nat_digits: "c \<in> set (show_nat n) \<Longrightarrow> is_digit c"
proof (induction n rule: show_nat.induct)
  case (1 n)
  show ?case
  proof (cases "n < 10")
    case True
    with "1.prems" show ?thesis
      by (simp add: show_nat.simps [of n] is_digit_digit_char)
  next
    case False
    with "1.prems" "1.IH" show ?thesis
      by (auto simp: show_nat.simps [of n] is_digit_digit_char)
  qed
qed

lemma show_nat_nonempty: "show_nat n \<noteq> []"
  by (simp add: show_nat.simps [of n])

lemma digits_val_snoc: "digits_val (ds @ [c]) = 10 * digits_val ds + digit_val c"
  by (simp add: digits_val_def)

lemma digits_val_show_nat: "digits_val (show_nat n) = n"
proof (induction n rule: show_nat.induct)
  case (1 n)
  show ?case
  proof (cases "n < 10")
    case True
    then show ?thesis
      by (simp add: show_nat.simps [of n] digits_val_def digit_val_digit_char)
  next
    case False
    with "1.IH" show ?thesis
      by (simp add: show_nat.simps [of n] digits_val_snoc digit_val_digit_char)
  qed
qed

lemma digit_not_space: "is_digit c \<Longrightarrow> \<not> isStrWhiteSpaceChar c"
  by (auto simp: is_digit_def isStrWhiteSpaceChar_def)

lemma digit_not_sign: "is_digit c \<Longrightarrow> c \<noteq> CHR ''+'' \<and> c \<noteq> CHR ''-''"
  by (auto simp: is_digit_def)

lemma parseInt10_digits:
  assumes "ds \<noteq> []" and "\<forall>c \<in> set ds. is_digit c"
  shows "parseInt10 ds = Some (int (digits_val ds))"
proof -
  from assms obtain c r where ds: "ds = c # r" by (cases ds) auto
  with assms have c: "is_digit c" by simp
  have dw: "dropWhile isStrWhiteSpaceChar ds = ds"
    using c ds by (simp add: digit_not_space)
  have tw: "takeWhile is_digit ds = ds"
    using assms(2) by simp
  have sg: "c \<noteq> CHR ''+''" "c \<noteq> CHR ''-''" using digit_not_sign [OF c] by simp_all
  have "parseInt10 (c # r) = (if takeWhile is_digit (c # r) = [] then None
          else Some (int (digits_val (takeWhile is_digit (c # r)))))"
    using dw sg unfolding parseInt10_def ds by (simp add: Let_def)
  then show ?thesis using tw assms(1) unfolding ds by simp
qed

lemma parseInt10_minus_digits:
  assumes "ds \<noteq> []" and "\<forall>c \<in> set ds. is_digit c"
  shows "parseInt10 (CHR ''-'' # ds) = Some (- int (digits_val ds))"
proof -
  have ns: "\<not> isStrWhiteSpaceChar CHR ''-''" by (simp add: isStrWhiteSpaceChar_def)
  have tw: "takeWhile is_digit ds = ds"
    using assms(2) by simp
  have "parseInt10 (CHR ''-'' # ds) = (if takeWhile is_digit ds = [] then None
          else Some (- int (digits_val (takeWhile is_digit ds))))"
    using ns unfolding parseInt10_def by (simp add: Let_def)
  then show ?thesis using tw assms(1) by simp
qed

lemma parseInt10_show_int: "parseInt10 (show_int i) = Some i"
proof (cases "i < 0")
  case True
  then show ?thesis
    using parseInt10_minus_digits [of "show_nat (nat (- i))"]
    by (simp add: show_int_def show_nat_nonempty show_nat_digits digits_val_show_nat)
next
  case False
  then show ?thesis
    using parseInt10_digits [of "show_nat (nat i)"]
    by (simp add: show_int_def show_nat_nonempty show_nat_digits digits_val_show_nat)
qed

lemma show_int_nonempty: "show_int i \<noteq> []"
  by (simp add: show_int_def show_nat_nonempty)

lemma show_nat_3: "show_nat 3 = ''3''"
  by code_simp

section \<open>The retry loop, attempt by attempt\<close>

lemma try_connect_eq: "try_connect x w = (attempt_outcome x w 0, attempt_state w)"
  by (simp add: try_connect_def attempt_outcome_def attempt_state_def split: sum.splits)

lemma connect_loop_exhausted:
  "MAX_RETRY_ATTEMPTS < a \<Longrightarrow> connect_loop x a le w = (Inl (retries_exhausted le), w)"
  by (simp add: connect_loop.simps [of x a le w])

lemma connect_loop_success:
  "a \<le> MAX_RETRY_ATTEMPTS \<Longrightarrow> attempt_outcome x w 0 = Inr p \<Longrightarrow>
   connect_loop x a le w = (Inr (), install_pool p (attempt_state w))"
  by (simp add: connect_loop.simps [of x a le w] try_connect_eq install_pool_def)

lemma connect_loop_failure:
  "a \<le> MAX_RETRY_ATTEMPTS \<Longrightarrow> attempt_outcome x w 0 = Inl err \<Longrightarrow>
   connect_loop x a le w = connect_loop x (a + 1) (Some err) (fail_step a err w)"
  by (simp add: connect_loop.simps [of x a le w] try_connect_eq fail_step_def Let_def)

lemma env_fail_step [simp]: "env (fail_step a e w) = env w"
  and platform_fail_step [simp]: "platform (fail_step a e w) = platform w"
  and pool_fail_step [simp]: "globalSqlPool (fail_step a e w) = globalSqlPool w"
  and observers_fail_step [simp]: "observers (fail_step a e w) = observers w"
  by (simp_all add: fail_step_def attempt_state_def emit_def Let_def split: sum.splits)

lemma attempt_events_fail_step [simp]: "attempt_events (fail_step a e w) = attempt_events w"
  by (simp add: attempt_events_def)

lemma events_attempt_state: "events (attempt_state w) = events w @ attempt_events w"
  by (simp add: attempt_state_def attempt_events_def emit_def split: sum.splits)

lemma events_fail_step:
  "events (fail_step a e w) =
     events w @ attempt_events w @ [AttemptFailed a (message e)]
       @ (if a < MAX_RETRY_ATTEMPTS then [Sleep (backoff_delay a)] else [])"
  by (simp add: fail_step_def events_attempt_state emit_def Let_def)

lemma attempt_outcome_fail_step:
  "attempt_outcome x w 0 = Inl e' \<Longrightarrow> attempt_outcome x (fail_step a e w) k = attempt_outcome x w (Suc k)"
  by (simp add: attempt_outcome_def fail_step_def attempt_state_def emit_def Let_def split: sum.splits)

lemma backoff_delay_1: "backoff_delay 1 = 1000" by (simp add: backoff_delay_def)
lemma backoff_delay_2: "backoff_delay 2 = 2000" by (simp add: backoff_delay_def)

lemma backoff_delay_cap: "5 \<le> a \<Longrightarrow> backoff_delay a = 10000"
proof -
  assume a: "5 \<le> a"
  then have "(2::nat) ^ 4 \<le> 2 ^ (a - 1)" by (intro power_increasing) auto
  then have "(16::nat) \<le> 2 ^ (a - 1)" by simp
  then show ?thesis by (simp add: backoff_delay_def min_def)
qed


lemma attempt_outcome_shift_0:
  "attempt_outcome x w 0 = Inl e' \<Longrightarrow> attempt_outcome x (fail_step a e w) 0 = attempt_outcome x w 1"
  using attempt_outcome_fail_step [of x w e' a e 0] by simp

lemma attempt_outcome_shift_1:
  "attempt_outcome x w 0 = Inl e' \<Longrightarrow> attempt_outcome x (fail_step a e w) 1 = attempt_outcome x w 2"
  using attempt_outcome_fail_step [of x w e' a e 1] by (simp del: One_nat_def)

lemma loop_step_1:
  "attempt_outcome x w 0 = Inl e \<Longrightarrow> connect_loop x 1 le w = connect_loop x 2 (Some e) (fail_step 1 e w)"
  using connect_loop_failure [of 1 x w e le] by (simp add: MAX_RETRY_ATTEMPTS_def del: One_nat_def)

lemma loop_step_2:
  "attempt_outcome x w 0 = Inl e \<Longrightarrow> connect_loop x 2 le w = connect_loop x 3 (Some e) (fail_step 2 e w)"
  using connect_loop_failure [of 2 x w e le] by (simp add: MAX_RETRY_ATTEMPTS_def del: One_nat_def)

lemma loop_step_3:
  "attempt_outcome x w 0 = Inl e \<Longrightarrow> connect_loop x 3 le w = connect_loop x 4 (Some e) (fail_step 3 e w)"
  using connect_loop_failure [of 3 x w e le] by (simp add: MAX_RETRY_ATTEMPTS_def del: One_nat_def)

lemma loop_ok1:
  assumes "attempt_outcome x w 0 = Inr p"
  shows "connect_loop x 1 None w = (Inr (), install_pool p (attempt_state w))"
  using assms by (simp add: connect_loop_success MAX_RETRY_ATTEMPTS_def del: One_nat_def)

lemma loop_ok2:
  assumes "attempt_outcome x w 0 = Inl e1" "attempt_outcome x w 1 = Inr p"
  shows "connect_loop x 1 None w = (Inr (), install_pool p (attempt_state (fail_step 1 e1 w)))"
proof -
  let ?w1 = "fail_step 1 e1 w"
  have o1: "attempt_outcome x ?w1 0 = Inr p"
    using assms by (simp add: attempt_outcome_shift_0 del: One_nat_def)
  have "connect_loop x 1 None w = connect_loop x 2 (Some e1) ?w1"
    using assms(1) by (rule loop_step_1)
  also have "\<dots> = (Inr (), install_pool p (attempt_state ?w1))"
    using o1 by (simp add: connect_loop_success MAX_RETRY_ATTEMPTS_def)
  finally show ?thesis .
qed

lemma loop_ok3:
  assumes "attempt_outcome x w 0 = Inl e1" "attempt_outcome x w 1 = Inl e2" "attempt_outcome x w 2 = Inr p"
  shows "connect_loop x 1 None w =
           (Inr (), install_pool p (attempt_state (fail_step 2 e2 (fail_step 1 e1 w))))"
proof -
  let ?w1 = "fail_step 1 e1 w"
  let ?w2 = "fail_step 2 e2 ?w1"
  have o1: "attempt_outcome x ?w1 0 = Inl e2" "attempt_outcome x ?w1 1 = Inr p"
    using assms by (simp_all add: attempt_outcome_shift_0 attempt_outcome_shift_1 del: One_nat_def)
  have o2: "attempt_outcome x ?w2 0 = Inr p"
    using o1 by (simp add: attempt_outcome_shift_0 del: One_nat_def)
  have "connect_loop x 1 None w = connect_loop x 2 (Some e1) ?w1"
    using assms(1) by (rule loop_step_1)
  also have "\<dots> = connect_loop x 3 (Some e2) ?w2"
    using o1(1) by (rule loop_step_2)
  also have "\<dots> = (Inr (), install_pool p (attempt_state ?w2))"
    using o2 by (simp add: connect_loop_success MAX_RETRY_ATTEMPTS_def)
  finally show ?thesis .
qed

lemma loop_fail3:
  assumes "attempt_outcome x w 0 = Inl e1" "attempt_outcome x w 1 = Inl e2" "attempt_outcome x w 2 = Inl e3"
  shows "connect_loop x 1 None w =
           (Inl (retries_exhausted (Some e3)), fail_step 3 e3 (fail_step 2 e2 (fail_step 1 e1 w)))"
proof -
  let ?w1 = "fail_step 1 e1 w"
  let ?w2 = "fail_step 2 e2 ?w1"
  have o1: "attempt_outcome x ?w1 0 = Inl e2" "attempt_outcome x ?w1 1 = Inl e3"
    using assms by (simp_all add: attempt_outcome_shift_0 attempt_outcome_shift_1 del: One_nat_def)
  have o2: "attempt_outcome x ?w2 0 = Inl e3"
    using o1 by (simp add: attempt_outcome_shift_0 del: One_nat_def)
  have "connect_loop x 1 None w = connect_loop x 2 (Some e1) ?w1"
    using assms(1) by (rule loop_step_1)
  also have "\<dots> = connect_loop x 3 (Some e2) ?w2"
    using o1(1) by (rule loop_step_2)
  also have "\<dots> = connect_loop x 4 (Some e3) (fail_step 3 e3 ?w2)"
    using o2 by (rule loop_step_3)
  also have "\<dots> = (Inl (retries_exhausted (Some e3)), fail_step 3 e3 ?w2)"
    by (simp add: connect_loop_exhausted MAX_RETRY_ATTEMPTS_def)
  finally show ?thesis .
qed

lemma retries_exhausted_text:
  "retries_exhausted (Some e) =
     new_Error (''Failed to connect after 3 attempts. Last error: ''
                @ (if message e = [] then ''Unknown error'' else message e))"
  by (simp add: retries_exhausted_def MAX_RETRY_ATTEMPTS_def show_nat_3 last_error_text_def)

lemma new_events_append: "events w' = events w @ es \<Longrightarrow> new_events w w' = es"
  by (simp add: new_events_def)

lemma events_install_pool [simp]: "events (install_pool p w) = events w"
  and pool_install_pool [simp]: "globalSqlPool (install_pool p w) = Some p"
  by (simp_all add: install_pool_def)

text \<open>The four ways a connection sequence can go.\<close>

lemma connect_loop_cases:
  obtains
    (ok1) p where "attempt_outcome x w 0 = Inr p"
      "connect_loop x 1 None w = (Inr (), install_pool p (attempt_state w))"
  | (ok2) e1 p where "attempt_outcome x w 0 = Inl e1" "attempt_outcome x w 1 = Inr p"
      "connect_loop x 1 None w = (Inr (), install_pool p (attempt_state (fail_step 1 e1 w)))"
  | (ok3) e1 e2 p where "attempt_outcome x w 0 = Inl e1" "attempt_outcome x w 1 = Inl e2"
      "attempt_outcome x w 2 = Inr p"
      "connect_loop x 1 None w =
         (Inr (), install_pool p (attempt_state (fail_step 2 e2 (fail_step 1 e1 w))))"
  | (fail) e1 e2 e3 where "attempt_outcome x w 0 = Inl e1" "attempt_outcome x w 1 = Inl e2"
      "attempt_outcome x w 2 = Inl e3"
      "connect_loop x 1 None w =
         (Inl (retries_exhausted (Some e3)), fail_step 3 e3 (fail_step 2 e2 (fail_step 1 e1 w)))"
proof (cases "attempt_outcome x w 0")
  case (Inr p)
  then show ?thesis using loop_ok1 ok1 by blast
next
  case e1: (Inl e1)
  show ?thesis
  proof (cases "attempt_outcome x w 1")
    case (Inr p)
    then show ?thesis using e1 loop_ok2 ok2 by blast
  next
    case e2: (Inl e2)
    show ?thesis
    proof (cases "attempt_outcome x w 2")
      case (Inr p)
      then show ?thesis using e1 e2 loop_ok3 ok3 by blast
    next
      case (Inl e3)
      then show ?thesis using e1 e2 loop_fail3 fail by blast
    qed
  qed
qed

section \<open>Traces of a connection sequence\<close>

lemma events_attempt_after_fail:
  "events (attempt_state (fail_step a e w)) =
     events w @ attempt_events w @ [AttemptFailed a (message e)]
       @ (if a < MAX_RETRY_ATTEMPTS then [Sleep (backoff_delay a)] else []) @ attempt_events w"
  by (simp add: events_attempt_state events_fail_step)

lemma pool_attempt_state [simp]: "globalSqlPool (attempt_state w) = globalSqlPool w"
  by (simp add: attempt_state_def emit_def split: sum.splits)

lemma connect_sequence_cases:
  obtains
    (ok1) p w' where "attempt_outcome x w 0 = Inr p"
      "connect_loop x 1 None w = (Inr (), w')" "globalSqlPool w' = Some p"
      "events w' = events w @ attempt_events w"
  | (ok2) e1 p w' where "attempt_outcome x w 0 = Inl e1" "attempt_outcome x w 1 = Inr p"
      "connect_loop x 1 None w = (Inr (), w')" "globalSqlPool w' = Some p"
      "events w' = events w @ attempt_events w @ [AttemptFailed 1 (message e1), Sleep 1000]
                     @ attempt_events w"
  | (ok3) e1 e2 p w' where "attempt_outcome x w 0 = Inl e1" "attempt_outcome x w 1 = Inl e2"
      "attempt_outcome x w 2 = Inr p"
      "connect_loop x 1 None w = (Inr (), w')" "globalSqlPool w' = Some p"
      "events w' = events w @ attempt_events w @ [AttemptFailed 1 (message e1), Sleep 1000]
                     @ attempt_events w @ [AttemptFailed 2 (message e2), Sleep 2000]
                     @ attempt_events w"
  | (fail) e1 e2 e3 w' where "attempt_outcome x w 0 = Inl e1" "attempt_outcome x w 1 = Inl e2"
      "attempt_outcome x w 2 = Inl e3"
      "connect_loop x 1 None w = (Inl (retries_exhausted (Some e3)), w')"
      "globalSqlPool w' = globalSqlPool w"
      "events w' = events w @ attempt_events w @ [AttemptFailed 1 (message e1), Sleep 1000]
                     @ attempt_events w @ [AttemptFailed 2 (message e2), Sleep 2000]
                     @ attempt_events w @ [AttemptFailed 3 (message e3)]"
proof (cases rule: connect_loop_cases [of x w])
  case (ok1 p)
  show ?thesis
    by (rule that(1) [OF ok1(1) ok1(2)]) (simp_all add: events_attempt_state)
next
  case (ok2 e1 p)
  show ?thesis
    by (rule that(2) [OF ok2(1) ok2(2) ok2(3)])
       (simp_all add: events_attempt_after_fail MAX_RETRY_ATTEMPTS_def backoff_delay_1 del: One_nat_def)
next
  case (ok3 e1 e2 p)
  show ?thesis
    by (rule that(3) [OF ok3(1) ok3(2) ok3(3) ok3(4)])
       (simp_all add: events_attempt_after_fail events_fail_step MAX_RETRY_ATTEMPTS_def
          backoff_delay_1 backoff_delay_2 del: One_nat_def)
next
  case (fail e1 e2 e3)
  show ?thesis
    by (rule that(4) [OF fail(1) fail(2) fail(3) fail(4)])
       (simp_all add: events_fail_step MAX_RETRY_ATTEMPTS_def
          backoff_delay_1 backoff_delay_2 del: One_nat_def)
qed

lemma obs_append [simp]:
  "sleeps (es @ fs) = sleeps es @ sleeps fs"
  "failed_attempts (es @ fs) = failed_attempts es @ failed_attempts fs"
  "connect_events (es @ fs) = connect_events es @ connect_events fs"
  "run_events (es @ fs) = run_events es @ run_events fs"
  by (simp_all add: sleeps_def failed_attempts_def connect_events_def run_events_def)

lemma obs_Cons [simp]:
  "sleeps (e # es) = sleep_of e @ sleeps es"
  "failed_attempts (e # es) = failed_attempt_of e @ failed_attempts es"
  "connect_events (e # es) = (if is_connect e then e # connect_events es else connect_events es)"
  "run_events (e # es) = (if is_run e then e # run_events es else run_events es)"
  by (simp_all add: sleeps_def failed_attempts_def connect_events_def run_events_def)

lemma obs_Nil [simp]:
  "sleeps [] = []" "failed_attempts [] = []" "connect_events [] = []" "run_events [] = []"
  by (simp_all add: sleeps_def failed_attempts_def connect_events_def run_events_def)

lemma attempt_events_obs [simp]:
  "sleeps (attempt_events w) = []" "failed_attempts (attempt_events w) = []"
  "run_events (attempt_events w) = []"
  by (cases "createSqlConfig (env w) (platform w)"; simp add: attempt_events_def)+

lemma connect_events_attempt: "length (connect_events (attempt_events w)) \<le> 1"
  by (cases "createSqlConfig (env w) (platform w)"; simp add: attempt_events_def)

lemma ensure_absent: "globalSqlPool w = None \<Longrightarrow> ensureSqlConnection x w = connect_loop x 1 None w"
  by (simp add: ensureSqlConnection_def close_old_pool_def)

lemma sequence_bounds:
  assumes "connect_loop x 1 None w = (r, w')"
  shows "length (connect_events (new_events w w')) \<le> 3"
    and "length (failed_attempts (new_events w w')) \<le> 3"
    and "sleeps (new_events w w') = map backoff_delay (filter (\<lambda>a. a < 3) (failed_attempts (new_events w w')))"
proof -
  note ce = connect_events_attempt [of w]
  have "length (connect_events (new_events w w')) \<le> 3
      \<and> length (failed_attempts (new_events w w')) \<le> 3
      \<and> sleeps (new_events w w') = map backoff_delay (filter (\<lambda>a. a < 3) (failed_attempts (new_events w w')))"
  proof (cases rule: connect_sequence_cases [of x w])
    case (ok1 p w1)
    with assms have "new_events w w' = attempt_events w"
      by (intro new_events_append) simp
    then show ?thesis using ce by simp
  next
    case (ok2 e1 p w1)
    with assms have "new_events w w' = attempt_events w @ [AttemptFailed 1 (message e1), Sleep 1000]
                     @ attempt_events w"
      by (intro new_events_append) simp
    then show ?thesis using ce by (simp add: backoff_delay_1 del: One_nat_def)
  next
    case (ok3 e1 e2 p w1)
    with assms have "new_events w w' = attempt_events w @ [AttemptFailed 1 (message e1), Sleep 1000]
                     @ attempt_events w @ [AttemptFailed 2 (message e2), Sleep 2000]
                     @ attempt_events w"
      by (intro new_events_append) simp
    then show ?thesis using ce by (simp add: backoff_delay_1 backoff_delay_2 del: One_nat_def)
  next
    case (fail e1 e2 e3 w1)
    with assms have "new_events w w' = attempt_events w @ [AttemptFailed 1 (message e1), Sleep 1000]
                     @ attempt_events w @ [AttemptFailed 2 (message e2), Sleep 2000]
                     @ attempt_events w @ [AttemptFailed 3 (message e3)]"
      by (intro new_events_append) simp
    then show ?thesis using ce by (simp add: backoff_delay_1 backoff_delay_2 del: One_nat_def)
  qed
  then show "length (connect_events (new_events w w')) \<le> 3"
    and "length (failed_attempts (new_events w w')) \<le> 3"
    and "sleeps (new_events w w') = map backoff_delay (filter (\<lambda>a. a < 3) (failed_attempts (new_events w w')))"
    by simp_all
qed

lemma sequence_fails_iff:
  "isl (fst (connect_loop x 1 None w))
     = (isl (attempt_outcome x w 0) \<and> isl (attempt_outcome x w 1) \<and> isl (attempt_outcome x w 2))"
  by (cases rule: connect_sequence_cases [of x w]) simp_all

lemma sequence_all_fail:
  assumes "attempt_outcome x w 0 = Inl e1" "attempt_outcome x w 1 = Inl e2" "attempt_outcome x w 2 = Inl e3"
  shows "fst (connect_loop x 1 None w) = Inl (retries_exhausted (Some e3))"
    and "globalSqlPool (snd (connect_loop x 1 None w)) = globalSqlPool w"
    and "events (snd (connect_loop x 1 None w)) =
           events w @ attempt_events w @ [AttemptFailed 1 (message e1), Sleep 1000]
           @ attempt_events w @ [AttemptFailed 2 (message e2), Sleep 2000]
           @ attempt_events w @ [AttemptFailed 3 (message e3)]"
  using assms by (cases rule: connect_sequence_cases [of x w]; simp)+

lemma sequence_extends_trace:
  "\<exists>es. events (snd (connect_loop x 1 None w)) = events w @ es \<and> run_events es = []"
  by (cases rule: connect_sequence_cases [of x w]) simp_all

lemma sequence_pool:
  "case fst (connect_loop x 1 None w) of
     Inl e \<Rightarrow> globalSqlPool (snd (connect_loop x 1 None w)) = globalSqlPool w
   | Inr u \<Rightarrow> \<exists>k p. k < 3 \<and> attempt_outcome x w k = Inr p
                    \<and> globalSqlPool (snd (connect_loop x 1 None w)) = Some p"
proof (cases rule: connect_sequence_cases [of x w])
  case (ok1 p w')
  then show ?thesis by (auto intro: exI [of _ 0])
next
  case (ok2 e1 p w')
  then show ?thesis by (auto intro: exI [of _ 1])
next
  case (ok3 e1 e2 p w')
  then show ?thesis by (auto intro: exI [of _ 2])
next
  case (fail e1 e2 e3 w')
  then show ?thesis by simp
qed

section \<open>The concrete states evaluated\<close>

lemma createSqlConfig_example:
  "createSqlConfig example_env ''linux'' =
     Inr \<lparr> server = Some ''db.example.net'', port = 1433, database = Some ''shop'',
           user = Some ''reader'', password = Some ''secret'',
           options = \<lparr> encrypt = True, trustServerCertificate = False,
                       enableArithAbort = True, cryptoMinVersion = None \<rparr>,
           connectionTimeout = Num 30000, requestTimeout = Num 30000,
           pool = \<lparr> pool_max = 10, pool_min = 0, idleTimeoutMillis = 30000,
                    acquireTimeoutMillis = Num 30000 \<rparr> \<rparr>"
  by (simp add: createSqlConfig_def example_env_def resolve_port_def resolve_timeout_def
      env_lower_is_true_def truthy_def times1000_def to_num_def Let_def)

lemma attempt_outcome_down:
  "attempt_outcome driver_down (startup example_env ''linux'') k
     = Inl (JsError ''ConnectionError'' ''Failed to connect to db.example.net:1433'')"
  by (simp add: attempt_outcome_def startup_def createSqlConfig_example driver_down_def)

section \<open>The ready pool is reused\<close>

text \<open>
  C8. When \<^verbatim>\<open>ensureSqlConnection\<close> is entered while the pool reference holds a pool
  whose \<^verbatim>\<open>connected\<close> flag is set, it returns at once: the state is the one it was
  entered with, so nothing was added to the trace and the driver was not called. The flag
  is the only thing it reads.
\<close>

theorem ensureSqlConnection_ready:
  assumes "globalSqlPool w = Some p" and "connected p"
  shows "ensureSqlConnection x w = (Inr (), w)
       \<and> new_events w (snd (ensureSqlConnection x w)) = []
       \<and> connects (snd (ensureSqlConnection x w)) = connects w"
  using assms by (simp add: ensureSqlConnection_def new_events_def)

theorem ensureSqlConnection_ready_witness:
  "globalSqlPool (install_pool (example_pool 0) (startup example_env ''linux'')) = Some (example_pool 0)
   \<and> connected (example_pool 0)
   \<and> ensureSqlConnection driver_down (install_pool (example_pool 0) (startup example_env ''linux''))
       = (Inr (), install_pool (example_pool 0) (startup example_env ''linux''))"
  using ensureSqlConnection_ready [of "install_pool (example_pool 0) (startup example_env ''linux'')" "example_pool 0" driver_down]
  by (simp add: install_pool_def example_pool_def)

section \<open>Connecting with no pool held\<close>

text \<open>
  C4. When \<^verbatim>\<open>ensureSqlConnection\<close> is entered with no pool held, it calls the driver
  at most 3 times and makes at most 3 attempts; after a failed attempt \<open>a < 3\<close> it waits
  \<open>backoff_delay a = min (1000 * 2 ^ (a - 1)) 10000\<close> milliseconds, which is 1000 after
  the first failure and 2000 after the second, and it does not wait after the third. It
  fails exactly when all three attempts fail; then the error is
  \<^verbatim>\<open>Failed to connect after 3 attempts. Last error: \<close> followed by the message of the
  third failure (\<^verbatim>\<open>Unknown error\<close> if that message is empty), the pool reference is
  still absent, and the trace is the three attempts with the two waits between them.
\<close>

theorem ensureSqlConnection_retries:
  assumes "globalSqlPool w = None"
  shows "length (connect_events (new_events w (snd (ensureSqlConnection x w)))) \<le> 3
       \<and> length (failed_attempts (new_events w (snd (ensureSqlConnection x w)))) \<le> 3
       \<and> sleeps (new_events w (snd (ensureSqlConnection x w)))
           = map backoff_delay (filter (\<lambda>a. a < 3) (failed_attempts (new_events w (snd (ensureSqlConnection x w)))))
       \<and> backoff_delay 1 = 1000 \<and> backoff_delay 2 = 2000
       \<and> isl (fst (ensureSqlConnection x w))
           = (isl (attempt_outcome x w 0) \<and> isl (attempt_outcome x w 1) \<and> isl (attempt_outcome x w 2))
       \<and> (\<forall>e1 e2 e3.
             attempt_outcome x w 0 = Inl e1 \<and> attempt_outcome x w 1 = Inl e2 \<and> attempt_outcome x w 2 = Inl e3 \<longrightarrow>
               fst (ensureSqlConnection x w)
                 = Inl (new_Error (''Failed to connect after 3 attempts. Last error: ''
                          @ (if message e3 = [] then ''Unknown error'' else message e3)))
             \<and> globalSqlPool (snd (ensureSqlConnection x w)) = None
             \<and> new_events w (snd (ensureSqlConnection x w))
                 = attempt_events w @ [AttemptFailed 1 (message e1), Sleep 1000]
                   @ attempt_events w @ [AttemptFailed 2 (message e2), Sleep 2000]
                   @ attempt_events w @ [AttemptFailed 3 (message e3)])"
proof -
  have eq: "ensureSqlConnection x w = connect_loop x 1 None w"
    using assms by (rule ensure_absent)
  obtain r w' where rw: "connect_loop x 1 None w = (r, w')"
    by (cases "connect_loop x 1 None w")
  note b = sequence_bounds [OF rw]
  have fail: "fst (connect_loop x 1 None w)
                 = Inl (new_Error (''Failed to connect after 3 attempts. Last error: ''
                          @ (if message e3 = [] then ''Unknown error'' else message e3)))
             \<and> globalSqlPool (snd (connect_loop x 1 None w)) = None
             \<and> new_events w (snd (connect_loop x 1 None w))
                 = attempt_events w @ [AttemptFailed 1 (message e1), Sleep 1000]
                   @ attempt_events w @ [AttemptFailed 2 (message e2), Sleep 2000]
                   @ attempt_events w @ [AttemptFailed 3 (message e3)]"
    if "attempt_outcome x w 0 = Inl e1" "attempt_outcome x w 1 = Inl e2" "attempt_outcome x w 2 = Inl e3"
    for e1 e2 e3
    using sequence_all_fail [OF that] assms by (simp add: retries_exhausted_text new_events_append)
  show ?thesis
    unfolding eq using b fail sequence_fails_iff [of x w]
    by (simp add: rw backoff_delay_1 backoff_delay_2 del: One_nat_def)
qed

theorem ensureSqlConnection_retries_witness:
  "globalSqlPool (startup example_env ''linux'') = None
   \<and> fst (ensureSqlConnection driver_down (startup example_env ''linux''))
       = Inl (new_Error ''Failed to connect after 3 attempts. Last error: Failed to connect to db.example.net:1433'')
   \<and> globalSqlPool (snd (ensureSqlConnection driver_down (startup example_env ''linux''))) = None
   \<and> sleeps (new_events (startup example_env ''linux'')
                (snd (ensureSqlConnection driver_down (startup example_env ''linux'')))) = [1000, 2000]
   \<and> length (connect_events (new_events (startup example_env ''linux'')
                (snd (ensureSqlConnection driver_down (startup example_env ''linux''))))) = 3"
proof -
  have p: "globalSqlPool (startup example_env ''linux'') = None"
    by (simp add: startup_def)
  have ae: "attempt_events (startup example_env ''linux'')
              = [Connect (projr (createSqlConfig example_env ''linux''))]"
    by (simp add: attempt_events_def startup_def createSqlConfig_example)
  show ?thesis
    using ensureSqlConnection_retries [OF p, of driver_down] p
    by (simp add: attempt_outcome_down ae del: One_nat_def)
qed

section \<open>Config resolution inside the retry loop\<close>

lemma createSqlConfig_port_invalid:
  "port_invalid e \<Longrightarrow> createSqlConfig e plat = Inl (new_Error (invalid_port_message e))"
  by (auto simp: port_invalid_def createSqlConfig_def Let_def split: option.splits)

lemma createSqlConfig_port_valid:
  assumes "\<not> port_invalid e"
  shows "\<exists>cfg. createSqlConfig e plat = Inr cfg \<and> resolve_port e = Some (port cfg)
           \<and> 1 \<le> port cfg \<and> port cfg \<le> 65535
           \<and> server cfg = e ''SERVER_NAME'' \<and> database cfg = e ''DATABASE_NAME''
           \<and> user cfg = e ''SQL_USERNAME'' \<and> password cfg = e ''SQL_PASSWORD''"
proof -
  from assms obtain p where p: "resolve_port e = Some p" "1 \<le> p" "p \<le> 65535"
    by (auto simp: port_invalid_def split: option.splits)
  then show ?thesis
    by (simp add: createSqlConfig_def Let_def)
qed

lemma invalid_port_message_nonempty: "invalid_port_message e \<noteq> []"
  by (simp add: invalid_port_message_def)

lemma close_old_pool_simps [simp]:
  "env (close_old_pool w) = env w" "platform (close_old_pool w) = platform w"
  "connects (close_old_pool w) = connects w" "globalSqlPool (close_old_pool w) = None"
  "observers (close_old_pool w) = observers w"
  by (simp_all add: close_old_pool_def emit_def split: option.splits)

lemma attempt_close_old_pool [simp]:
  "attempt_outcome x (close_old_pool w) k = attempt_outcome x w k"
  "attempt_events (close_old_pool w) = attempt_events w"
  by (simp_all add: attempt_outcome_def attempt_events_def cong: sum.case_cong)

lemma events_close_old_pool:
  "events (close_old_pool w) = events w @ (case globalSqlPool w of None \<Rightarrow> [] | Some p \<Rightarrow> [Close (pool_id p)])"
  by (simp add: close_old_pool_def emit_def split: option.splits)

lemma ensure_not_ready:
  "(\<forall>p. globalSqlPool w = Some p \<longrightarrow> \<not> connected p) \<Longrightarrow>
   ensureSqlConnection x w = connect_loop x 1 None (close_old_pool w)"
  by (auto simp: ensureSqlConnection_def split: option.splits)


lemma attempt_invalid_port:
  assumes "port_invalid (env w)"
  shows "attempt_outcome x w k = Inl (new_Error (invalid_port_message (env w)))"
    and "attempt_events w = []"
  using createSqlConfig_port_invalid [OF assms, of "platform w"]
  by (simp_all add: attempt_outcome_def attempt_events_def)

lemma parseInt10_70000: "parseInt10 ''70000'' = Some 70000"
  by (simp add: parseInt10_def isStrWhiteSpaceChar_def is_digit_def digits_val_def digit_val_def Let_def)

lemma port_invalid_bad_port_env: "port_invalid bad_port_env"
  by (simp add: port_invalid_def resolve_port_def bad_port_env_def parseInt10_70000)

text \<open>
  C10. With a \<^verbatim>\<open>PORT\<close> that the check of line 47 rejects,
  \<^verbatim>\<open>ensureSqlConnection\<close> never fails with the port error itself. Unless a connected
  pool is held (then it returns at once), \<^verbatim>\<open>createSqlConfig\<close> throws inside each of
  the three attempts, the throw is caught as a failed attempt, the waits of 1000 and 2000
  milliseconds are made, the driver is never called, and the caller gets
  \<^verbatim>\<open>Failed to connect after 3 attempts. Last error: \<close> followed by the text of the
  port error.
\<close>

theorem invalid_port_is_retried:
  assumes "port_invalid (env w)"
  shows "fst (ensureSqlConnection x w) \<noteq> Inl (new_Error (invalid_port_message (env w)))
       \<and> ((\<forall>p. globalSqlPool w = Some p \<longrightarrow> \<not> connected p) \<longrightarrow>
            fst (ensureSqlConnection x w)
              = Inl (new_Error (''Failed to connect after 3 attempts. Last error: ''
                       @ invalid_port_message (env w)))
          \<and> new_events (close_old_pool w) (snd (ensureSqlConnection x w))
              = [AttemptFailed 1 (invalid_port_message (env w)), Sleep 1000,
                 AttemptFailed 2 (invalid_port_message (env w)), Sleep 2000,
                 AttemptFailed 3 (invalid_port_message (env w))]
          \<and> connect_events (new_events w (snd (ensureSqlConnection x w))) = [])"
proof (cases "\<forall>p. globalSqlPool w = Some p \<longrightarrow> \<not> connected p")
  case False
  then obtain p where "globalSqlPool w = Some p" "connected p" by auto
  then have "ensureSqlConnection x w = (Inr (), w)"
    by (simp add: ensureSqlConnection_def)
  with False show ?thesis by simp
next
  case True
  let ?w0 = "close_old_pool w"
  let ?m = "invalid_port_message (env w)"
  let ?e = "new_Error ?m"
  have eq: "ensureSqlConnection x w = connect_loop x 1 None ?w0"
    using True by (rule ensure_not_ready)
  have inv: "port_invalid (env ?w0)" using assms by simp
  have o: "attempt_outcome x ?w0 0 = Inl ?e" "attempt_outcome x ?w0 1 = Inl ?e"
    "attempt_outcome x ?w0 2 = Inl ?e"
    using attempt_invalid_port(1) [OF inv] by simp_all
  have ae: "attempt_events ?w0 = []"
    using attempt_invalid_port(2) [OF inv] .
  note f = sequence_all_fail [OF o]
  have r: "fst (ensureSqlConnection x w)
             = Inl (new_Error (''Failed to connect after 3 attempts. Last error: '' @ ?m))"
    using f(1) by (simp add: eq retries_exhausted_text new_Error_def invalid_port_message_nonempty)
  have ev: "events (snd (ensureSqlConnection x w))
             = events ?w0 @ [AttemptFailed 1 ?m, Sleep 1000, AttemptFailed 2 ?m, Sleep 2000, AttemptFailed 3 ?m]"
    using f(3) ae by (simp add: eq new_Error_def)
  then have n: "new_events ?w0 (snd (ensureSqlConnection x w))
             = [AttemptFailed 1 ?m, Sleep 1000, AttemptFailed 2 ?m, Sleep 2000, AttemptFailed 3 ?m]"
    by (rule new_events_append)
  have "events (snd (ensureSqlConnection x w))
          = events w @ (case globalSqlPool w of None \<Rightarrow> [] | Some p \<Rightarrow> [Close (pool_id p)])
             @ [AttemptFailed 1 ?m, Sleep 1000, AttemptFailed 2 ?m, Sleep 2000, AttemptFailed 3 ?m]"
    using ev by (simp add: events_close_old_pool)
  then have c: "connect_events (new_events w (snd (ensureSqlConnection x w))) = []"
    by (simp add: new_events_def split: option.splits)
  have d: "fst (ensureSqlConnection x w) \<noteq> Inl (new_Error ?m)"
    unfolding r by (simp add: new_Error_def invalid_port_message_def)
  show ?thesis using r n c d by simp
qed

theorem invalid_port_is_retried_witness:
  "port_invalid (env (startup bad_port_env ''linux''))
   \<and> fst (ensureSqlConnection driver_up (startup bad_port_env ''linux''))
       = Inl (new_Error ''Failed to connect after 3 attempts. Last error: Invalid port number: 70000. Must be between 1 and 65535.'')
   \<and> connect_events (new_events (startup bad_port_env ''linux'')
        (snd (ensureSqlConnection driver_up (startup bad_port_env ''linux'')))) = []"
proof -
  have e: "env (startup bad_port_env ''linux'') = bad_port_env"
    and g: "globalSqlPool (startup bad_port_env ''linux'') = None"
    by (simp_all add: startup_def)
  have h: "port_invalid (env (startup bad_port_env ''linux''))"
    unfolding e by (rule port_invalid_bad_port_env)
  have m: "invalid_port_message bad_port_env = ''Invalid port number: 70000. Must be between 1 and 65535.''"
    by (simp add: invalid_port_message_def bad_port_env_def env_to_text_def)
  show ?thesis
    using invalid_port_is_retried [OF h, of driver_up] h g
    by (simp add: e m)
qed

section \<open>Stale pools and the error observer\<close>

lemma ensure_pool_after:
  assumes "\<forall>p. globalSqlPool w = Some p \<longrightarrow> \<not> connected p"
  shows "case fst (ensureSqlConnection x w) of
           Inl e \<Rightarrow> globalSqlPool (snd (ensureSqlConnection x w)) = None
         | Inr u \<Rightarrow> \<exists>k q. k < 3 \<and> attempt_outcome x w k = Inr q
                       \<and> globalSqlPool (snd (ensureSqlConnection x w)) = Some q"
  using sequence_pool [of x "close_old_pool w"] ensure_not_ready [OF assms, of x]
  by (simp split: sum.splits)

lemma close_old_pool_Some:
  "globalSqlPool w = Some p \<Longrightarrow> close_old_pool w = (emit (Close (pool_id p)) w)\<lparr>globalSqlPool := None\<rparr>"
  by (simp add: close_old_pool_def)

lemma stale_example:
  "fst (ensureSqlConnection driver_up (install_pool stale_pool (startup example_env ''linux''))) = Inr ()"
  "globalSqlPool (snd (ensureSqlConnection driver_up (install_pool stale_pool (startup example_env ''linux''))))
     = Some (example_pool 0)"
proof -
  let ?w = "install_pool stale_pool (startup example_env ''linux'')"
  have nr: "\<forall>p. globalSqlPool ?w = Some p \<longrightarrow> \<not> connected p"
    by (simp add: stale_pool_def)
  have o: "attempt_outcome driver_up (close_old_pool ?w) 0 = Inr (example_pool 0)"
    by (simp add: attempt_outcome_def install_pool_def startup_def createSqlConfig_example driver_up_def)
  have "ensureSqlConnection driver_up ?w
          = (Inr (), install_pool (example_pool 0) (attempt_state (close_old_pool ?w)))"
    using ensure_not_ready [OF nr, of driver_up] loop_ok1 [OF o] by simp
  then show "fst (ensureSqlConnection driver_up ?w) = Inr ()"
    and "globalSqlPool (snd (ensureSqlConnection driver_up ?w)) = Some (example_pool 0)"
    by simp_all
qed

section \<open>Dispatch\<close>

lemma switch_on_toolName: "switch_on (toolName t) = Some t"
  by (cases t) (simp_all add: switch_on_def switch_cases_def)

lemma switch_on_Some: "switch_on name = Some t \<Longrightarrow> toolName t = name"
  by (auto simp: switch_on_def switch_cases_def split: if_splits)

lemma switch_on_None: "(switch_on name = None) = (\<forall>t. toolName t \<noteq> name)"
proof
  assume n: "switch_on name = None"
  show "\<forall>t. toolName t \<noteq> name"
  proof
    fix t
    show "toolName t \<noteq> name"
      using n switch_on_toolName [of t] by auto
  qed
next
  assume "\<forall>t. toolName t \<noteq> name"
  then show "switch_on name = None"
    by (cases "switch_on name") (auto dest: switch_on_Some)
qed

lemma all_tools_wrapped: "t \<in> set wrapped_tools"
  by (cases t) (simp_all add: wrapped_tools_def)

lemma tool_run_eq: "tool_run x t args w = wrapped_run x t args w"
  by (simp add: tool_run_def all_tools_wrapped)

lemma ensure_extends_trace:
  "\<exists>es. events (snd (ensureSqlConnection x w)) = events w @ es \<and> run_events es = []"
proof (cases "\<forall>p. globalSqlPool w = Some p \<longrightarrow> \<not> connected p")
  case True
  obtain es where "events (snd (connect_loop x 1 None (close_old_pool w))) = events (close_old_pool w) @ es"
    and "run_events es = []"
    using sequence_extends_trace [of x "close_old_pool w"] by blast
  then show ?thesis
    using ensure_not_ready [OF True, of x]
    by (simp add: events_close_old_pool split: option.splits)
next
  case False
  then obtain p where "globalSqlPool w = Some p" "connected p" by auto
  then show ?thesis by (simp add: ensureSqlConnection_def)
qed

lemma ensure_no_runs: "run_events (new_events w (snd (ensureSqlConnection x w))) = []"
proof -
  obtain es where e: "events (snd (ensureSqlConnection x w)) = events w @ es" "run_events es = []"
    using ensure_extends_trace by blast
  show ?thesis using new_events_append [OF e(1)] e(2) by simp
qed

lemma ensure_success_pool:
  assumes "ensureSqlConnection x w = (Inr u, w1)"
  shows "\<exists>p. globalSqlPool w1 = Some p
           \<and> (globalSqlPool w = Some p \<and> connected p \<and> w1 = w
              \<or> (\<exists>k. k < 3 \<and> attempt_outcome x w k = Inr p))"
proof (cases "\<forall>p. globalSqlPool w = Some p \<longrightarrow> \<not> connected p")
  case True
  show ?thesis using ensure_pool_after [OF True, of x] assms by auto
next
  case False
  then obtain p where "globalSqlPool w = Some p" "connected p" by auto
  then show ?thesis using assms by (simp add: ensureSqlConnection_def)
qed

lemma CallTool_unknown:
  "\<forall>t. toolName t \<noteq> name \<Longrightarrow> CallTool x name args w = (error_envelope (''Unknown tool: '' @ name), w)"
  using switch_on_None [of name]
  by (simp add: CallTool_def CallTool_try_def unknown_tool_text_def)

lemma CallTool_describe_invalid:
  "describe_args_invalid args \<Longrightarrow>
   CallTool x ''describe_table'' args w = (error_envelope missing_tableName_text, w)"
  using switch_on_toolName [of DescribeTableTool]
  by (simp add: CallTool_def CallTool_try_def)

lemma CallTool_runs:
  assumes "\<not> (t = DescribeTableTool \<and> describe_args_invalid args)"
  shows "CallTool x (toolName t) args w = wrap_outcome x (tool_run x t args w)"
  using assms switch_on_toolName [of t]
  by (auto simp: CallTool_def CallTool_try_def wrap_outcome_def split: sum.splits prod.splits)

lemma CallTool_try_caught:
  "CallTool_try x name args w = (Inl e, w1) \<Longrightarrow>
   CallTool x name args w = (error_envelope (''Error occurred: '' @ error_toString e), w1)"
  by (simp add: CallTool_def)

lemma error_toString_message: "\<exists>pre. error_toString e = pre @ message e"
proof (cases "err_name e = [] \<or> message e = []")
  case True
  then show ?thesis by (auto simp: error_toString_def)
next
  case False
  then have "error_toString e = (err_name e @ '': '') @ message e"
    by (simp add: error_toString_def)
  then show ?thesis by blast
qed

lemma createSqlConfig_readonly:
  "createSqlConfig readonly_env ''linux'' = createSqlConfig example_env ''linux''"
  by (simp add: createSqlConfig_def readonly_env_def example_env_def resolve_port_def resolve_timeout_def
      env_lower_is_true_def truthy_def times1000_def to_num_def Let_def)

lemma runs_attempt_state [simp]: "runs (attempt_state w) = runs w"
  by (simp add: attempt_state_def emit_def split: sum.splits)

lemma originalRun_up: "originalRun driver_up t n a p = Inr (JString ''done'')"
  by (simp add: driver_up_def)

lemma tool_run_up:
  assumes "globalSqlPool w = None" and "createSqlConfig (env w) (platform w) = Inr cfg"
  shows "fst (tool_run driver_up t args w) = Inr (JString ''done'')"
    and "events (snd (tool_run driver_up t args w)) = events w @ [Connect cfg, Run t args]"
    and "globalSqlPool (snd (tool_run driver_up t args w)) = Some (example_pool (connects w))"
proof -
  have o: "attempt_outcome driver_up w 0 = Inr (example_pool (connects w))"
    using assms(2) by (simp add: attempt_outcome_def driver_up_def)
  have e: "ensureSqlConnection driver_up w
             = (Inr (), install_pool (example_pool (connects w)) (attempt_state w))"
    using ensure_absent [OF assms(1), of driver_up] loop_ok1 [OF o] by simp
  have ae: "attempt_events w = [Connect cfg]"
    using assms(2) by (simp add: attempt_events_def)
  show "fst (tool_run driver_up t args w) = Inr (JString ''done'')"
    by (simp add: tool_run_eq wrapped_run_def e unwrapped_run_def originalRun_up)
  show "events (snd (tool_run driver_up t args w)) = events w @ [Connect cfg, Run t args]"
    by (simp add: tool_run_eq wrapped_run_def e unwrapped_run_def emit_def events_attempt_state ae)
  show "globalSqlPool (snd (tool_run driver_up t args w)) = Some (example_pool (connects w))"
    by (simp add: tool_run_eq wrapped_run_def e unwrapped_run_def emit_def)
qed

lemma stringify_done: "JSON_stringify driver_up (JString ''done'') = Inr ([CHR 0x22] @ ''done'' @ [CHR 0x22])"
  by (simp add: driver_up_def example_stringify_def)

lemma CallTool_up:
  assumes "globalSqlPool w = None" and "createSqlConfig (env w) (platform w) = Inr cfg"
    and "\<not> (t = DescribeTableTool \<and> describe_args_invalid args)"
  shows "fst (CallTool driver_up (toolName t) args w) = success_envelope ([CHR 0x22] @ ''done'' @ [CHR 0x22])"
    and "new_events w (snd (CallTool driver_up (toolName t) args w)) = [Connect cfg, Run t args]"
proof -
  obtain r w1 where rw: "tool_run driver_up t args w = (r, w1)"
    by (cases "tool_run driver_up t args w")
  have r: "r = Inr (JString ''done'')" and ev: "events w1 = events w @ [Connect cfg, Run t args]"
    using tool_run_up(1,2) [OF assms(1,2), of t args] rw by simp_all
  have c: "CallTool driver_up (toolName t) args w = (success_envelope ([CHR 0x22] @ ''done'' @ [CHR 0x22]), w1)"
    using CallTool_runs [OF assms(3), of driver_up w] stringify_done
    by (simp add: wrap_outcome_def rw r)
  show "fst (CallTool driver_up (toolName t) args w) = success_envelope ([CHR 0x22] @ ''done'' @ [CHR 0x22])"
    by (simp add: c)
  show "new_events w (snd (CallTool driver_up (toolName t) args w)) = [Connect cfg, Run t args]"
    using ev by (simp add: c new_events_append)
qed

lemma CallTool_down:
  assumes "globalSqlPool w = None" and "createSqlConfig (env w) (platform w) = Inr cfg"
    and "\<not> (t = DescribeTableTool \<and> describe_args_invalid args)"
  shows "fst (CallTool driver_down (toolName t) args w)
           = error_envelope ''Error occurred: Error: Failed to connect after 3 attempts. Last error: Failed to connect to db.example.net:1433''"
    and "new_events w (snd (CallTool driver_down (toolName t) args w))
           = [Connect cfg, AttemptFailed 1 ''Failed to connect to db.example.net:1433'', Sleep 1000,
              Connect cfg, AttemptFailed 2 ''Failed to connect to db.example.net:1433'', Sleep 2000,
              Connect cfg, AttemptFailed 3 ''Failed to connect to db.example.net:1433'']"
proof -
  let ?e = "JsError ''ConnectionError'' ''Failed to connect to db.example.net:1433''"
  have o: "attempt_outcome driver_down w 0 = Inl ?e" "attempt_outcome driver_down w 1 = Inl ?e"
    "attempt_outcome driver_down w 2 = Inl ?e"
    using assms(2) by (simp_all add: attempt_outcome_def driver_down_def)
  have ae: "attempt_events w = [Connect cfg]"
    using assms(2) by (simp add: attempt_events_def)
  obtain r w1 where rw: "ensureSqlConnection driver_down w = (r, w1)"
    by (cases "ensureSqlConnection driver_down w")
  have eq: "connect_loop driver_down 1 None w = (r, w1)"
    using ensure_absent [OF assms(1), of driver_down] rw by simp
  have r: "r = Inl (new_Error ''Failed to connect after 3 attempts. Last error: Failed to connect to db.example.net:1433'')"
    using sequence_all_fail(1) [OF o] eq by (simp add: retries_exhausted_text)
  have ev: "events w1 = events w @ [Connect cfg, AttemptFailed 1 ''Failed to connect to db.example.net:1433'', Sleep 1000,
              Connect cfg, AttemptFailed 2 ''Failed to connect to db.example.net:1433'', Sleep 2000,
              Connect cfg, AttemptFailed 3 ''Failed to connect to db.example.net:1433'']"
    using sequence_all_fail(3) [OF o] eq by (simp add: ae)
  have c: "CallTool driver_down (toolName t) args w
             = (error_envelope ''Error occurred: Error: Failed to connect after 3 attempts. Last error: Failed to connect to db.example.net:1433'', w1)"
    using CallTool_runs [OF assms(3), of driver_down w]
    by (simp add: wrap_outcome_def tool_run_eq wrapped_run_def rw r new_Error_def error_toString_def)
  show "fst (CallTool driver_down (toolName t) args w)
           = error_envelope ''Error occurred: Error: Failed to connect after 3 attempts. Last error: Failed to connect to db.example.net:1433''"
    by (simp add: c)
  show "new_events w (snd (CallTool driver_down (toolName t) args w))
           = [Connect cfg, AttemptFailed 1 ''Failed to connect to db.example.net:1433'', Sleep 1000,
              Connect cfg, AttemptFailed 2 ''Failed to connect to db.example.net:1433'', Sleep 2000,
              Connect cfg, AttemptFailed 3 ''Failed to connect to db.example.net:1433'']"
    using ev by (simp add: c new_events_append)
qed

lemma startup_simps:
  "globalSqlPool (startup e plat) = None" "env (startup e plat) = e" "platform (startup e plat) = plat"
  "events (startup e plat) = []" "connects (startup e plat) = 0" "runs (startup e plat) = 0"
  "isReadOnly (startup e plat) = (e ''READONLY'' = Some ''true'')"
  by (simp_all add: startup_def)

lemma tool_run_third:
  assumes "globalSqlPool w = None" and "createSqlConfig (env w) (platform w) = Inr cfg"
    and "connects w = 0"
  shows "fst (tool_run driver_third t args w) = Inl (JsError ''RequestError'' ''Invalid object name'')"
    and "globalSqlPool (snd (tool_run driver_third t args w)) = Some (example_pool 2)"
proof -
  let ?e = "JsError ''ConnectionError'' ''timeout''"
  have o: "attempt_outcome driver_third w 0 = Inl ?e" "attempt_outcome driver_third w 1 = Inl ?e"
    "attempt_outcome driver_third w 2 = Inr (example_pool 2)"
    using assms(2,3) by (simp_all add: attempt_outcome_def driver_third_def numeral_2_eq_2)
  have e: "ensureSqlConnection driver_third w
             = (Inr (), install_pool (example_pool 2) (attempt_state (fail_step 2 ?e (fail_step 1 ?e w))))"
    using ensure_absent [OF assms(1), of driver_third] loop_ok3 [OF o] by simp
  have r: "originalRun driver_third t n a p = Inl (JsError ''RequestError'' ''Invalid object name'')" for n a p
    by (simp add: driver_third_def)
  show "fst (tool_run driver_third t args w) = Inl (JsError ''RequestError'' ''Invalid object name'')"
    by (simp add: tool_run_eq wrapped_run_def e unwrapped_run_def r)
  show "globalSqlPool (snd (tool_run driver_third t args w)) = Some (example_pool 2)"
    by (simp add: tool_run_eq wrapped_run_def e unwrapped_run_def emit_def)
qed

lemma createSqlConfig_startup_example:
  "createSqlConfig (env (startup example_env ''linux'')) (platform (startup example_env ''linux''))
     = Inr (projr (createSqlConfig example_env ''linux''))"
  by (simp add: startup_simps createSqlConfig_example)

lemma ensure_up_example:
  "ensureSqlConnection driver_up (startup example_env ''linux'')
     = (Inr (), install_pool (example_pool 0) (attempt_state (startup example_env ''linux'')))"
proof -
  have o: "attempt_outcome driver_up (startup example_env ''linux'') 0 = Inr (example_pool 0)"
    by (simp add: attempt_outcome_def startup_simps createSqlConfig_example driver_up_def)
  show ?thesis
    using ensure_absent [OF startup_simps(1), of driver_up example_env "''linux''"] loop_ok1 [OF o]
    by simp
qed

section \<open>Handlers run behind the connection check\<close>

lemma wrapped_run_after_ensure:
  "t \<in> set wrapped_tools
   \<and> (\<forall>e w1. ensureSqlConnection x w = (Inl e, w1) \<longrightarrow>
         tool_run x t args w = (Inl e, w1) \<and> run_events (new_events w w1) = [])
   \<and> (\<forall>w1. ensureSqlConnection x w = (Inr (), w1) \<longrightarrow>
         tool_run x t args w
           = (originalRun x t (runs w1) args (globalSqlPool w1),
              emit (Run t args) (w1\<lparr>runs := runs w1 + 1\<rparr>))
       \<and> run_events (new_events w w1) = []
       \<and> (\<exists>p. globalSqlPool w1 = Some p
             \<and> (globalSqlPool w = Some p \<and> connected p \<and> w1 = w
                \<or> (\<exists>k. k < 3 \<and> attempt_outcome x w k = Inr p))))
   \<and> (run_events (new_events w (snd (CallTool x name args w))) \<noteq> [] \<longrightarrow>
         (\<exists>w1 p. ensureSqlConnection x w = (Inr (), w1) \<and> globalSqlPool w1 = Some p))"
proof (intro conjI allI impI)
  show "t \<in> set wrapped_tools" by (rule all_tools_wrapped)
next
  fix e w1 assume a: "ensureSqlConnection x w = (Inl e, w1)"
  show "tool_run x t args w = (Inl e, w1)"
    by (simp add: tool_run_eq wrapped_run_def a)
  show "run_events (new_events w w1) = []"
    using ensure_no_runs [of w x] a by simp
next
  fix w1 assume a: "ensureSqlConnection x w = (Inr (), w1)"
  show "tool_run x t args w
           = (originalRun x t (runs w1) args (globalSqlPool w1),
              emit (Run t args) (w1\<lparr>runs := runs w1 + 1\<rparr>))"
    by (simp add: tool_run_eq wrapped_run_def a unwrapped_run_def)
  show "run_events (new_events w w1) = []"
    using ensure_no_runs [of w x] a by simp
  show "\<exists>p. globalSqlPool w1 = Some p
             \<and> (globalSqlPool w = Some p \<and> connected p \<and> w1 = w
                \<or> (\<exists>k. k < 3 \<and> attempt_outcome x w k = Inr p))"
    using a by (rule ensure_success_pool)
next
  assume r: "run_events (new_events w (snd (CallTool x name args w))) \<noteq> []"
  obtain res w1 where e: "ensureSqlConnection x w = (res, w1)"
    by (cases "ensureSqlConnection x w")
  have nr: "run_events (new_events w w1) = []"
    using ensure_no_runs [of w x] e by simp
  have self: "new_events w w = []" by (simp add: new_events_def)
  show "\<exists>w1 p. ensureSqlConnection x w = (Inr (), w1) \<and> globalSqlPool w1 = Some p"
  proof (cases res)
    case (Inl err)
    have "run_events (new_events w (snd (CallTool x name args w))) = []"
      using nr self
      by (simp add: CallTool_def CallTool_try_def tool_run_eq wrapped_run_def e Inl
          split: option.splits)
    with r show ?thesis by simp
  next
    case (Inr u)
    with e ensure_success_pool [of x w u w1] show ?thesis by auto
  qed
qed

lemma attempt_outcome_connected:
  assumes "\<forall>k cfg q. sql_connect x k cfg = Inr q \<longrightarrow> connected q"
    and "attempt_outcome x w k = Inr p"
  shows "connected p"
  using assms by (auto simp: attempt_outcome_def split: sum.splits)

lemma ensure_success_connected:
  assumes c: "\<forall>k cfg q. sql_connect x k cfg = Inr q \<longrightarrow> connected q"
    and e: "ensureSqlConnection x w = (Inr u, w1)"
  shows "\<exists>p. globalSqlPool w1 = Some p \<and> connected p"
  using ensure_success_pool [OF e] attempt_outcome_connected [OF c] by blast

text \<open>
  C6. Every tool is in the list that \<^verbatim>\<open>wrapToolRun\<close> is applied to, so a tool's
  \<^verbatim>\<open>run\<close> first awaits \<^verbatim>\<open>ensureSqlConnection\<close>. If that throws, the error is
  the outcome and the original body is not called. If it returns, the original body is
  called in the state it left, and in that state the pool reference holds a pool: the one
  already held, whose \<^verbatim>\<open>connected\<close> flag was checked, or the one a driver call of the
  connection sequence returned. \<^verbatim>\<open>ensureSqlConnection\<close> itself never calls a tool
  body, and a dispatch whose trace has a tool body call is one whose
  \<^verbatim>\<open>ensureSqlConnection\<close> returned with a pool held. The code does not read the flag
  of a pool that \<^verbatim>\<open>sql.connect\<close> has just returned; under the driver's contract, that
  \<^verbatim>\<open>sql.connect\<close> resolves only with a connected pool, the pool held when a tool
  body is called is connected in both cases.
\<close>

theorem handler_runs_after_connection:
  "t \<in> set wrapped_tools
   \<and> (\<forall>e w1. ensureSqlConnection x w = (Inl e, w1) \<longrightarrow>
         tool_run x t args w = (Inl e, w1) \<and> run_events (new_events w w1) = [])
   \<and> (\<forall>w1. ensureSqlConnection x w = (Inr (), w1) \<longrightarrow>
         tool_run x t args w
           = (originalRun x t (runs w1) args (globalSqlPool w1),
              emit (Run t args) (w1\<lparr>runs := runs w1 + 1\<rparr>))
       \<and> run_events (new_events w w1) = []
       \<and> (\<exists>p. globalSqlPool w1 = Some p
             \<and> (globalSqlPool w = Some p \<and> connected p \<and> w1 = w
                \<or> (\<exists>k. k < 3 \<and> attempt_outcome x w k = Inr p))))
   \<and> (run_events (new_events w (snd (CallTool x name args w))) \<noteq> [] \<longrightarrow>
         (\<exists>w1 p. ensureSqlConnection x w = (Inr (), w1) \<and> globalSqlPool w1 = Some p))
   \<and> ((\<forall>k cfg q. sql_connect x k cfg = Inr q \<longrightarrow> connected q) \<longrightarrow>
         (\<forall>w1. ensureSqlConnection x w = (Inr (), w1) \<longrightarrow>
            (\<exists>p. globalSqlPool w1 = Some p \<and> connected p))
       \<and> (run_events (new_events w (snd (CallTool x name args w))) \<noteq> [] \<longrightarrow>
            (\<exists>w1 p. ensureSqlConnection x w = (Inr (), w1) \<and> globalSqlPool w1 = Some p
                     \<and> connected p)))"
proof -
  note old = wrapped_run_after_ensure [of t x w args name]
  have new: "\<exists>p. globalSqlPool w1 = Some p \<and> connected p"
    if c: "\<forall>k cfg q. sql_connect x k cfg = Inr q \<longrightarrow> connected q"
      and e: "ensureSqlConnection x w = (Inr (), w1)" for w1
    using ensure_success_connected [OF c e] .
  have run: "\<exists>w1 p. ensureSqlConnection x w = (Inr (), w1) \<and> globalSqlPool w1 = Some p \<and> connected p"
    if c: "\<forall>k cfg q. sql_connect x k cfg = Inr q \<longrightarrow> connected q"
      and r: "run_events (new_events w (snd (CallTool x name args w))) \<noteq> []"
  proof -
    from old r obtain w1 p where e: "ensureSqlConnection x w = (Inr (), w1)" by blast
    from ensure_success_connected [OF c e] e show ?thesis by blast
  qed
  show ?thesis
    apply (intro conjI)
        apply (rule old [THEN conjunct1])
       apply (rule old [THEN conjunct2, THEN conjunct1])
      apply (rule old [THEN conjunct2, THEN conjunct2, THEN conjunct1])
     apply (rule old [THEN conjunct2, THEN conjunct2, THEN conjunct2])
    using new run apply blast
    done
qed

theorem handler_runs_after_connection_witness:
  "ReadDataTool \<in> set wrapped_tools
   \<and> ensureSqlConnection driver_up (startup example_env ''linux'')
       = (Inr (), install_pool (example_pool 0) (attempt_state (startup example_env ''linux'')))
   \<and> tool_run driver_up ReadDataTool None (startup example_env ''linux'')
       = (Inr (JString ''done''),
          emit (Run ReadDataTool None)
            ((install_pool (example_pool 0) (attempt_state (startup example_env ''linux'')))\<lparr>runs := 1\<rparr>))
   \<and> globalSqlPool (install_pool (example_pool 0) (attempt_state (startup example_env ''linux'')))
       = Some (example_pool 0)
   \<and> fst (ensureSqlConnection driver_down (startup example_env ''linux''))
       = Inl (new_Error ''Failed to connect after 3 attempts. Last error: Failed to connect to db.example.net:1433'')
   \<and> tool_run driver_down ReadDataTool None (startup example_env ''linux'')
       = (Inl (new_Error ''Failed to connect after 3 attempts. Last error: Failed to connect to db.example.net:1433''),
          snd (ensureSqlConnection driver_down (startup example_env ''linux'')))
   \<and> (\<exists>p. globalSqlPool (install_pool (example_pool 0) (attempt_state (startup example_env ''linux'')))
              = Some p \<and> connected p)"
proof -
  let ?w = "startup example_env ''linux''"
  let ?w1 = "install_pool (example_pool 0) (attempt_state ?w)"
  have contract: "\<forall>k cfg q. sql_connect driver_up k cfg = Inr q \<longrightarrow> connected q"
    by (auto simp: driver_up_def example_pool_def)
  note up = handler_runs_after_connection [of ReadDataTool driver_up ?w None "''read_data''"]
  note down = handler_runs_after_connection [of ReadDataTool driver_down ?w None "''read_data''"]
  have a: "ReadDataTool \<in> set wrapped_tools" using up by blast
  from up ensure_up_example
  have "tool_run driver_up ReadDataTool None ?w
          = (originalRun driver_up ReadDataTool (runs ?w1) None (globalSqlPool ?w1),
             emit (Run ReadDataTool None) (?w1\<lparr>runs := runs ?w1 + 1\<rparr>))"
    by blast
  then have b: "tool_run driver_up ReadDataTool None ?w
          = (Inr (JString ''done''), emit (Run ReadDataTool None) (?w1\<lparr>runs := 1\<rparr>))"
    by (simp add: originalRun_up install_pool_def startup_simps)
  let ?e = "new_Error ''Failed to connect after 3 attempts. Last error: Failed to connect to db.example.net:1433''"
  obtain r w2 where d: "ensureSqlConnection driver_down ?w = (r, w2)"
    by (cases "ensureSqlConnection driver_down ?w")
  have "fst (ensureSqlConnection driver_down ?w) = Inl ?e"
    unfolding ensure_absent [OF startup_simps(1), of driver_down example_env "''linux''"]
    using sequence_all_fail(1) [OF attempt_outcome_down attempt_outcome_down attempt_outcome_down]
    by (simp add: retries_exhausted_text)
  then have r: "r = Inl ?e" by (simp add: d)
  from down d r have c: "tool_run driver_down ReadDataTool None ?w = (Inl ?e, w2)"
    by blast
  from up contract ensure_up_example
  have g: "\<exists>p. globalSqlPool ?w1 = Some p \<and> connected p"
    by blast
  show ?thesis using a b c d r g ensure_up_example by simp
qed

section \<open>Every dispatch ends in an envelope\<close>

text \<open>
  C7. The handler of a tool call returns one envelope whatever happens inside its
  \<^verbatim>\<open>try\<close> block: any throw there is caught and becomes the error envelope
  \<^verbatim>\<open>Error occurred: \<close> followed by the error's string form, which ends with its
  message. A name that is no tool's name gives the error envelope
  \<^verbatim>\<open>Unknown tool: \<close> followed by the name, with the state unchanged (no connection
  attempt). A throw of the tool's \<^verbatim>\<open>run\<close>, which includes a throw of
  \<^verbatim>\<open>ensureSqlConnection\<close>, gives the error envelope of that error; a returned result
  gives the success envelope of its JSON text.
\<close>

theorem dispatch_returns_envelope:
  "(\<forall>e w1. CallTool_try x name args w = (Inl e, w1) \<longrightarrow>
        CallTool x name args w = (error_envelope (''Error occurred: '' @ error_toString e), w1))
   \<and> ((\<forall>t. toolName t \<noteq> name) \<longrightarrow>
        CallTool x name args w = (error_envelope (''Unknown tool: '' @ name), w)
      \<and> new_events w (snd (CallTool x name args w)) = [])
   \<and> (\<forall>t e w1. toolName t = name \<and> \<not> (t = DescribeTableTool \<and> describe_args_invalid args)
          \<and> tool_run x t args w = (Inl e, w1) \<longrightarrow>
        CallTool x name args w = (error_envelope (''Error occurred: '' @ error_toString e), w1)
      \<and> (\<exists>pre. error_toString e = pre @ message e))
   \<and> (\<forall>t e w1. toolName t = name \<and> \<not> (t = DescribeTableTool \<and> describe_args_invalid args)
          \<and> ensureSqlConnection x w = (Inl e, w1) \<longrightarrow>
        CallTool x name args w = (error_envelope (''Error occurred: '' @ error_toString e), w1))
   \<and> (\<forall>t r s w1. toolName t = name \<and> \<not> (t = DescribeTableTool \<and> describe_args_invalid args)
          \<and> tool_run x t args w = (Inr r, w1) \<and> JSON_stringify x r = Inr s \<longrightarrow>
        CallTool x name args w = (success_envelope s, w1))
   \<and> isError (error_envelope m) = Some True \<and> isError (success_envelope s') = None"
proof (intro conjI allI impI)
  fix e w1 assume "CallTool_try x name args w = (Inl e, w1)"
  then show "CallTool x name args w = (error_envelope (''Error occurred: '' @ error_toString e), w1)"
    by (rule CallTool_try_caught)
next
  assume u: "\<forall>t. toolName t \<noteq> name"
  show "CallTool x name args w = (error_envelope (''Unknown tool: '' @ name), w)"
    using u by (rule CallTool_unknown)
  then show "new_events w (snd (CallTool x name args w)) = []"
    by (simp add: new_events_def)
next
  fix t e w1
  assume a: "toolName t = name \<and> \<not> (t = DescribeTableTool \<and> describe_args_invalid args)
          \<and> tool_run x t args w = (Inl e, w1)"
  then have "CallTool x (toolName t) args w = wrap_outcome x (tool_run x t args w)"
    by (intro CallTool_runs) simp
  with a show "CallTool x name args w = (error_envelope (''Error occurred: '' @ error_toString e), w1)"
    by (auto simp: wrap_outcome_def)
  show "\<exists>pre. error_toString e = pre @ message e" by (rule error_toString_message)
next
  fix t e w1
  assume a: "toolName t = name \<and> \<not> (t = DescribeTableTool \<and> describe_args_invalid args)
          \<and> ensureSqlConnection x w = (Inl e, w1)"
  then have "CallTool x (toolName t) args w = wrap_outcome x (tool_run x t args w)"
    by (intro CallTool_runs) simp
  with a show "CallTool x name args w = (error_envelope (''Error occurred: '' @ error_toString e), w1)"
    by (auto simp: wrap_outcome_def tool_run_eq wrapped_run_def)
next
  fix t r s w1
  assume a: "toolName t = name \<and> \<not> (t = DescribeTableTool \<and> describe_args_invalid args)
          \<and> tool_run x t args w = (Inr r, w1) \<and> JSON_stringify x r = Inr s"
  then have "CallTool x (toolName t) args w = wrap_outcome x (tool_run x t args w)"
    by (intro CallTool_runs) simp
  with a show "CallTool x name args w = (success_envelope s, w1)"
    by (auto simp: wrap_outcome_def)
next
  show "isError (error_envelope m) = Some True" by (simp add: error_envelope_def)
  show "isError (success_envelope s') = None" by (simp add: success_envelope_def)
qed

theorem dispatch_returns_envelope_witness:
  "CallTool driver_up ''delete_all'' None (startup example_env ''linux'')
     = (error_envelope ''Unknown tool: delete_all'', startup example_env ''linux'')
   \<and> fst (tool_run driver_third ListTableTool (Some []) (startup example_env ''linux''))
       = Inl (JsError ''RequestError'' ''Invalid object name'')
   \<and> fst (CallTool driver_third ''list_table'' (Some []) (startup example_env ''linux''))
       = error_envelope ''Error occurred: RequestError: Invalid object name''
   \<and> fst (tool_run driver_up ReadDataTool None (startup example_env ''linux'')) = Inr (JString ''done'')
   \<and> fst (CallTool driver_up ''read_data'' None (startup example_env ''linux''))
       = success_envelope ([CHR 0x22] @ ''done'' @ [CHR 0x22])"
proof -
  let ?w = "startup example_env ''linux''"
  have u: "\<forall>t. toolName t \<noteq> ''delete_all''"
  proof
    fix t show "toolName t \<noteq> ''delete_all''" by (cases t) simp_all
  qed
  from dispatch_returns_envelope [of driver_up "''delete_all''" None ?w] u
  have a: "CallTool driver_up ''delete_all'' None ?w = (error_envelope (''Unknown tool: '' @ ''delete_all''), ?w)"
    by blast
  obtain w1 where t3: "tool_run driver_third ListTableTool (Some []) ?w
                         = (Inl (JsError ''RequestError'' ''Invalid object name''), w1)"
    using tool_run_third(1) [OF startup_simps(1) createSqlConfig_startup_example startup_simps(5), of ListTableTool "Some []"]
    by (cases "tool_run driver_third ListTableTool (Some []) ?w") simp
  have n3: "toolName ListTableTool = ''list_table'' \<and> \<not> (ListTableTool = DescribeTableTool \<and> describe_args_invalid (Some []))"
    by simp
  from dispatch_returns_envelope [of driver_third "''list_table''" "Some []" ?w] n3 t3
  have b: "CallTool driver_third ''list_table'' (Some []) ?w
             = (error_envelope (''Error occurred: '' @ error_toString (JsError ''RequestError'' ''Invalid object name'')), w1)"
    by blast
  obtain w2 where tu: "tool_run driver_up ReadDataTool None ?w = (Inr (JString ''done''), w2)"
    using tool_run_up(1) [OF startup_simps(1) createSqlConfig_startup_example, of ReadDataTool None]
    by (cases "tool_run driver_up ReadDataTool None ?w") simp
  have nu: "toolName ReadDataTool = ''read_data'' \<and> \<not> (ReadDataTool = DescribeTableTool \<and> describe_args_invalid None)"
    by simp
  from dispatch_returns_envelope [of driver_up "''read_data''" None ?w] nu tu stringify_done
  have c: "CallTool driver_up ''read_data'' None ?w = (success_envelope ([CHR 0x22] @ ''done'' @ [CHR 0x22]), w2)"
    by blast
  show ?thesis
    using a b c t3 tu by (simp add: error_toString_def)
qed

section \<open>Argument validation in the dispatcher\<close>

text \<open>
  C3, as stated: for every operation, arguments that lack a required field give an error
  envelope naming the field before any connection is touched. The dispatcher does this for
  \<^verbatim>\<open>describe_table\<close> only. For \<^verbatim>\<open>update_data\<close> called with an empty arguments
  object, against a driver that cannot connect, it makes three driver calls and answers
  with the connection error.
\<close>

theorem update_data_without_arguments_connects:
  "fst (CallTool driver_down ''update_data'' (Some []) (startup example_env ''linux''))
     = error_envelope ''Error occurred: Error: Failed to connect after 3 attempts. Last error: Failed to connect to db.example.net:1433''
   \<and> length (connect_events (new_events (startup example_env ''linux'')
        (snd (CallTool driver_down ''update_data'' (Some []) (startup example_env ''linux''))))) = 3"
proof -
  let ?w = "startup example_env ''linux''"
  have cfg: "createSqlConfig (env ?w) (platform ?w) = Inr (projr (createSqlConfig example_env ''linux''))"
    by (simp add: startup_simps createSqlConfig_example)
  have nd: "\<not> (UpdateDataTool = DescribeTableTool \<and> describe_args_invalid (Some []))" by simp
  note c = CallTool_down [OF startup_simps(1) cfg nd]
  show ?thesis using c by simp
qed

text \<open>
  C3, amended: dispatching \<^verbatim>\<open>describe_table\<close> with no arguments, or with arguments
  whose \<^verbatim>\<open>tableName\<close> is not a string, returns the error envelope
  \<^verbatim>\<open>Missing or invalid 'tableName' argument for describe_table tool.\<close> with the
  state unchanged: no connection attempt and no call of the tool. For every other tool the
  dispatcher checks nothing about the arguments: the outcome is that of the tool's
  wrapped \<^verbatim>\<open>run\<close>, which connects first.
\<close>

theorem validation_only_for_describe_table:
  "(describe_args_invalid args \<longrightarrow>
      CallTool x ''describe_table'' args w = (error_envelope missing_tableName_text, w)
    \<and> new_events w (snd (CallTool x ''describe_table'' args w)) = [])
   \<and> (\<forall>t. t \<noteq> DescribeTableTool \<longrightarrow>
         CallTool x (toolName t) args w = wrap_outcome x (tool_run x t args w))
   \<and> missing_tableName_text
       = ''Missing or invalid '' @ [CHR 0x27] @ ''tableName'' @ [CHR 0x27] @ '' argument for describe_table tool.''"
proof (intro conjI allI impI)
  assume "describe_args_invalid args"
  then show c: "CallTool x ''describe_table'' args w = (error_envelope missing_tableName_text, w)"
    by (rule CallTool_describe_invalid)
  show "new_events w (snd (CallTool x ''describe_table'' args w)) = []"
    unfolding c by (simp add: new_events_def)
next
  fix t :: tool assume "t \<noteq> DescribeTableTool"
  then show "CallTool x (toolName t) args w = wrap_outcome x (tool_run x t args w)"
    by (intro CallTool_runs) simp
next
  show "missing_tableName_text
       = ''Missing or invalid '' @ [CHR 0x27] @ ''tableName'' @ [CHR 0x27] @ '' argument for describe_table tool.''"
    by (simp add: missing_tableName_text_def)
qed

theorem validation_only_for_describe_table_witness:
  "describe_args_invalid (Some [(''tableName'', JNumber 3)])
   \<and> CallTool driver_down ''describe_table'' (Some [(''tableName'', JNumber 3)]) (startup example_env ''linux'')
       = (error_envelope (''Missing or invalid '' @ [CHR 0x27] @ ''tableName'' @ [CHR 0x27] @ '' argument for describe_table tool.''),
          startup example_env ''linux'')
   \<and> CallTool driver_down ''update_data'' (Some []) (startup example_env ''linux'')
       = wrap_outcome driver_down (tool_run driver_down UpdateDataTool (Some []) (startup example_env ''linux''))"
proof -
  let ?w = "startup example_env ''linux''"
  have i: "describe_args_invalid (Some [(''tableName'', JNumber 3)])"
    by (simp add: describe_args_invalid_def is_string_field_def)
  note t = validation_only_for_describe_table [of "Some [(''tableName'', JNumber 3)]" driver_down ?w]
  from t i have a: "CallTool driver_down ''describe_table'' (Some [(''tableName'', JNumber 3)]) ?w
       = (error_envelope missing_tableName_text, ?w)"
    by blast
  have "UpdateDataTool \<noteq> DescribeTableTool" by simp
  with validation_only_for_describe_table [of "Some []" driver_down ?w]
  have b: "CallTool driver_down (toolName UpdateDataTool) (Some []) ?w
             = wrap_outcome driver_down (tool_run driver_down UpdateDataTool (Some []) ?w)"
    by blast
  show ?thesis using i a b by (simp add: missing_tableName_text_def)
qed

section \<open>Read-only mode\<close>

text \<open>
  C1. In read-only mode the listing leaves out the five writing tools, but the
  \<^verbatim>\<open>switch\<close> of the call handler does not look at \<^verbatim>\<open>isReadOnly\<close>: with
  \<^verbatim>\<open>READONLY=true\<close>, a call of \<^verbatim>\<open>insert_data\<close> connects, runs the tool and
  returns its result in a success envelope, where a name that is not registered gets the
  \<^verbatim>\<open>Unknown tool\<close> error envelope.
\<close>

theorem readonly_dispatch_runs_write_tool:
  "isReadOnly (startup readonly_env ''linux'')
   \<and> set write_tools \<inter> set (ListTools (startup readonly_env ''linux'')) = {}
   \<and> fst (CallTool driver_up ''insert_data'' None (startup readonly_env ''linux''))
       = success_envelope ([CHR 0x22] @ ''done'' @ [CHR 0x22])
   \<and> run_events (new_events (startup readonly_env ''linux'')
        (snd (CallTool driver_up ''insert_data'' None (startup readonly_env ''linux''))))
       = [Run InsertDataTool None]
   \<and> length (connect_events (new_events (startup readonly_env ''linux'')
        (snd (CallTool driver_up ''insert_data'' None (startup readonly_env ''linux''))))) = 1
   \<and> fst (CallTool driver_up ''delete_all'' None (startup readonly_env ''linux''))
       = error_envelope ''Unknown tool: delete_all''"
proof -
  let ?w = "startup readonly_env ''linux''"
  have ro: "isReadOnly ?w" by (simp add: startup_simps readonly_env_def)
  have l: "set write_tools \<inter> set (ListTools ?w) = {}"
    using ro by (simp add: ListTools_def write_tools_def)
  have cfg: "createSqlConfig (env ?w) (platform ?w) = Inr (projr (createSqlConfig example_env ''linux''))"
    by (simp add: startup_simps createSqlConfig_readonly createSqlConfig_example)
  have nd: "\<not> (InsertDataTool = DescribeTableTool \<and> describe_args_invalid None)" by simp
  note c = CallTool_up [OF startup_simps(1) cfg nd]
  have u: "\<forall>t. toolName t \<noteq> ''delete_all''"
  proof
    fix t show "toolName t \<noteq> ''delete_all''" by (cases t) simp_all
  qed
  show ?thesis
    using ro l c CallTool_unknown [OF u, of driver_up None ?w] by simp
qed

section \<open>The port check and the required fields\<close>

lemma createSqlConfig_fails_iff: "isl (createSqlConfig e plat) = port_invalid e"
proof (cases "port_invalid e")
  case True
  then show ?thesis by (simp add: createSqlConfig_port_invalid)
next
  case False
  then show ?thesis using createSqlConfig_port_valid [OF False, of plat] by auto
qed

lemma port_invalid_show_int:
  "e ''PORT'' = Some (show_int i) \<Longrightarrow> port_invalid e = (i < 1 \<or> 65535 < i)"
  by (simp add: port_invalid_def resolve_port_def show_int_nonempty parseInt10_show_int)

lemma port_invalid_NaN:
  "e ''PORT'' = Some s \<Longrightarrow> s \<noteq> [] \<Longrightarrow> parseInt10 s = None \<Longrightarrow> port_invalid e"
  by (simp add: port_invalid_def resolve_port_def)

lemma digit_char_values:
  "digit_char 0 = CHR ''0''" "digit_char 5 = CHR ''5''" "digit_char 7 = CHR ''7''"
  "digit_char 8 = CHR ''8''"
  by (simp_all add: digit_char_def char_of_def bit_0)

lemma show_int_examples: "show_int 70000 = ''70000''" "show_int 8080 = ''8080''" "show_int 0 = ''0''"
  "show_int (- 5) = ''-5''"
  by (simp_all add: show_int_def digit_char_values
      show_nat.simps [of 70000] show_nat.simps [of 7000] show_nat.simps [of 700]
      show_nat.simps [of 70] show_nat.simps [of 7] show_nat.simps [of 8080]
      show_nat.simps [of 808] show_nat.simps [of 80] show_nat.simps [of 8]
      show_nat.simps [of 0] show_nat.simps [of 5])

lemma parseInt10_abc: "parseInt10 ''abc'' = None"
  by (simp add: parseInt10_def isStrWhiteSpaceChar_def is_digit_def Let_def)

lemma port_default: "\<not> truthy (e ''PORT'') \<Longrightarrow> resolve_port e = Some 1433"
  by (auto simp: truthy_def resolve_port_def split: option.splits)

lemma parseInt10_digits_then:
  assumes "ds \<noteq> []" and "\<forall>c \<in> set ds. is_digit c" and "takeWhile is_digit rest = []"
  shows "parseInt10 (ds @ rest) = Some (int (digits_val ds))"
proof -
  from assms obtain c r where ds: "ds = c # r" by (cases ds) auto
  with assms have c: "is_digit c" by simp
  have dw: "dropWhile isStrWhiteSpaceChar (ds @ rest) = ds @ rest"
    using c ds by (simp add: digit_not_space)
  have tw: "takeWhile is_digit (ds @ rest) = ds"
    using assms(2,3) by (simp add: takeWhile_append2)
  have sg: "c \<noteq> CHR ''+''" "c \<noteq> CHR ''-''" using digit_not_sign [OF c] by simp_all
  have "parseInt10 (c # r @ rest) = (if takeWhile is_digit (c # r @ rest) = [] then None
          else Some (int (digits_val (takeWhile is_digit (c # r @ rest)))))"
    using dw sg unfolding parseInt10_def ds by (simp add: Let_def)
  then show ?thesis using tw assms(1) unfolding ds by simp
qed

lemma parseInt10_minus_digits_then:
  assumes "ds \<noteq> []" and "\<forall>c \<in> set ds. is_digit c" and "takeWhile is_digit rest = []"
  shows "parseInt10 (CHR ''-'' # ds @ rest) = Some (- int (digits_val ds))"
proof -
  have ns: "\<not> isStrWhiteSpaceChar CHR ''-''" by (simp add: isStrWhiteSpaceChar_def)
  have tw: "takeWhile is_digit (ds @ rest) = ds"
    using assms(2,3) by (simp add: takeWhile_append2)
  have "parseInt10 (CHR ''-'' # ds @ rest) = (if takeWhile is_digit (ds @ rest) = [] then None
          else Some (- int (digits_val (takeWhile is_digit (ds @ rest)))))"
    using ns unfolding parseInt10_def by (simp add: Let_def)
  then show ?thesis using tw assms(1) by simp
qed

lemma parseInt10_show_int_then:
  assumes "takeWhile is_digit rest = []"
  shows "parseInt10 (show_int i @ rest) = Some i"
proof (cases "i < 0")
  case True
  then show ?thesis
    using parseInt10_minus_digits_then [of "show_nat (nat (- i))" rest] assms
    by (simp add: show_int_def show_nat_nonempty show_nat_digits digits_val_show_nat)
next
  case False
  then show ?thesis
    using parseInt10_digits_then [of "show_nat (nat i)" rest] assms
    by (simp add: show_int_def show_nat_nonempty show_nat_digits digits_val_show_nat)
qed

lemma resolve_port_leading_int:
  "e ''PORT'' = Some (show_int i @ rest) \<Longrightarrow> takeWhile is_digit rest = [] \<Longrightarrow> resolve_port e = Some i"
  by (simp add: resolve_port_def show_int_nonempty parseInt10_show_int_then)

lemma show_int_80: "show_int 80 = ''80''"
  by (simp add: show_int_def digit_char_values show_nat.simps [of 80] show_nat.simps [of 8])

text \<open>
  C9, as stated: config resolution fails for every port value outside 1..65535 and for
  every non-numeric one. \<^verbatim>\<open>parseInt\<close> reads the leading digits and ignores the rest:
  \<^verbatim>\<open>PORT=80abc\<close>, which is no number, resolves to a config with port 80, and
  \<^verbatim>\<open>PORT=1e9\<close>, which denotes a number far outside the range, resolves to a config with
  port 1.
\<close>

theorem createSqlConfig_accepts_trailing_text:
  "createSqlConfig (example_env(''PORT'' \<mapsto> ''80abc'')) ''linux''
     = Inr ((projr (createSqlConfig example_env ''linux'')) \<lparr> port := 80 \<rparr>)
   \<and> createSqlConfig (example_env(''PORT'' \<mapsto> ''1e9'')) ''linux''
     = Inr ((projr (createSqlConfig example_env ''linux'')) \<lparr> port := 1 \<rparr>)"
proof -
  have a: "parseInt10 ''80abc'' = Some 80" "parseInt10 ''1e9'' = Some 1"
    by (simp_all add: parseInt10_def isStrWhiteSpaceChar_def is_digit_def digits_val_def
        digit_val_def Let_def)
  show ?thesis
    by (simp add: createSqlConfig_def example_env_def resolve_port_def resolve_timeout_def a
        env_lower_is_true_def truthy_def times1000_def to_num_def Let_def)
qed

text \<open>
  C9, amended: \<^verbatim>\<open>createSqlConfig\<close> fails, with
  \<^verbatim>\<open>Invalid port number: ... Must be between 1 and 65535.\<close>, when the value that
  \<^verbatim>\<open>parseInt(PORT, 10)\<close> reads from a non-empty \<^verbatim>\<open>PORT\<close> is \<^verbatim>\<open>NaN\<close> or lies
  outside 1..65535, and returns a config with that value as its port when it lies inside;
  an unset or empty \<^verbatim>\<open>PORT\<close> reads as 1433. The value read is the leading integer:
  when \<^verbatim>\<open>PORT\<close> is an integer \<open>i\<close> in decimal followed by any text that does not
  start with a digit, the port is \<open>i\<close> and resolution fails if and only if \<open>i < 1\<close> or
  \<open>65535 < i\<close>; when \<^verbatim>\<open>parseInt\<close> finds no leading number, it fails.
\<close>

theorem createSqlConfig_port_range:
  "(resolve_port e = None \<longrightarrow> createSqlConfig e plat = Inl (new_Error (invalid_port_message e)))
   \<and> (\<forall>p. resolve_port e = Some p \<and> (p < 1 \<or> 65535 < p) \<longrightarrow>
         createSqlConfig e plat = Inl (new_Error (invalid_port_message e)))
   \<and> (\<forall>p. resolve_port e = Some p \<and> 1 \<le> p \<and> p \<le> 65535 \<longrightarrow>
         (\<exists>cfg. createSqlConfig e plat = Inr cfg \<and> port cfg = p))
   \<and> (\<forall>i rest. e ''PORT'' = Some (show_int i @ rest) \<and> takeWhile is_digit rest = [] \<longrightarrow>
         resolve_port e = Some i
       \<and> isl (createSqlConfig e plat) = (i < 1 \<or> 65535 < i))
   \<and> (\<forall>s. e ''PORT'' = Some s \<and> s \<noteq> [] \<and> parseInt10 s = None \<longrightarrow>
         createSqlConfig e plat
           = Inl (new_Error (''Invalid port number: '' @ s @ ''. Must be between 1 and 65535.'')))
   \<and> (\<not> truthy (e ''PORT'') \<longrightarrow> resolve_port e = Some 1433)"
proof -
  have c1: "createSqlConfig e plat = Inl (new_Error (invalid_port_message e))"
    if "resolve_port e = None"
  proof -
    from that have "port_invalid e" by (simp add: port_invalid_def)
    then show ?thesis by (rule createSqlConfig_port_invalid)
  qed
  have c2: "createSqlConfig e plat = Inl (new_Error (invalid_port_message e))"
    if "resolve_port e = Some p \<and> (p < 1 \<or> 65535 < p)" for p
  proof -
    from that have "port_invalid e" by (auto simp: port_invalid_def)
    then show ?thesis by (rule createSqlConfig_port_invalid)
  qed
  have c3: "\<exists>cfg. createSqlConfig e plat = Inr cfg \<and> port cfg = p"
    if a: "resolve_port e = Some p \<and> 1 \<le> p \<and> p \<le> 65535" for p
  proof -
    from a have "\<not> port_invalid e" by (auto simp: port_invalid_def)
    from createSqlConfig_port_valid [OF this, of plat] a show ?thesis by auto
  qed
  have c4: "resolve_port e = Some i \<and> isl (createSqlConfig e plat) = (i < 1 \<or> 65535 < i)"
    if a: "e ''PORT'' = Some (show_int i @ rest) \<and> takeWhile is_digit rest = []" for i rest
  proof -
    from a have r: "resolve_port e = Some i" by (simp add: resolve_port_leading_int)
    then have "port_invalid e = (i < 1 \<or> 65535 < i)" by (simp add: port_invalid_def)
    with r show ?thesis by (simp add: createSqlConfig_fails_iff)
  qed
  have c5: "createSqlConfig e plat
           = Inl (new_Error (''Invalid port number: '' @ s @ ''. Must be between 1 and 65535.''))"
    if a: "e ''PORT'' = Some s \<and> s \<noteq> [] \<and> parseInt10 s = None" for s
  proof -
    from a have "port_invalid e" by (auto intro: port_invalid_NaN)
    then have "createSqlConfig e plat = Inl (new_Error (invalid_port_message e))"
      by (rule createSqlConfig_port_invalid)
    then show ?thesis using a by (simp add: invalid_port_message_def env_to_text_def)
  qed
  have c6: "resolve_port e = Some 1433" if "\<not> truthy (e ''PORT'')"
    using that by (rule port_default)
  show ?thesis using c1 c2 c3 c4 c5 c6 by blast
qed

theorem createSqlConfig_port_range_witness:
  "isl (createSqlConfig (example_env(''PORT'' \<mapsto> ''70000'')) ''linux'')
   \<and> isl (createSqlConfig (example_env(''PORT'' \<mapsto> ''0'')) ''linux'')
   \<and> isl (createSqlConfig (example_env(''PORT'' \<mapsto> ''-5'')) ''linux'')
   \<and> \<not> isl (createSqlConfig (example_env(''PORT'' \<mapsto> ''8080'')) ''linux'')
   \<and> \<not> isl (createSqlConfig (example_env(''PORT'' \<mapsto> ''80abc'')) ''linux'')
   \<and> resolve_port (example_env(''PORT'' \<mapsto> ''80abc'')) = Some 80
   \<and> createSqlConfig (example_env(''PORT'' \<mapsto> ''abc'')) ''linux''
       = Inl (new_Error ''Invalid port number: abc. Must be between 1 and 65535.'')
   \<and> resolve_port example_env = Some 1433"
proof -
  have dec: "resolve_port (example_env(''PORT'' \<mapsto> show_int i @ rest)) = Some i
      \<and> isl (createSqlConfig (example_env(''PORT'' \<mapsto> show_int i @ rest)) ''linux'') = (i < 1 \<or> 65535 < i)"
    if "takeWhile is_digit rest = []" for i rest
    using createSqlConfig_port_range [of "example_env(''PORT'' \<mapsto> show_int i @ rest)" "''linux''",
        THEN conjunct2, THEN conjunct2, THEN conjunct2, THEN conjunct1, rule_format, of i rest] that
    by simp
  have nan: "createSqlConfig (example_env(''PORT'' \<mapsto> ''abc'')) ''linux''
       = Inl (new_Error (''Invalid port number: '' @ ''abc'' @ ''. Must be between 1 and 65535.''))"
    using createSqlConfig_port_range [of "example_env(''PORT'' \<mapsto> ''abc'')" "''linux''",
        THEN conjunct2, THEN conjunct2, THEN conjunct2, THEN conjunct2, THEN conjunct1, rule_format, of "''abc''"]
      parseInt10_abc
    by simp
  have dflt: "resolve_port example_env = Some 1433"
    using createSqlConfig_port_range [of example_env "''linux''",
        THEN conjunct2, THEN conjunct2, THEN conjunct2, THEN conjunct2, THEN conjunct2]
    by (simp add: truthy_def example_env_def)
  have t: "takeWhile is_digit ''abc'' = []" "takeWhile is_digit [] = []"
    by (simp_all add: is_digit_def)
  show ?thesis
    using dec [OF t(2), of 70000] dec [OF t(2), of 0] dec [OF t(2), of "- 5"] dec [OF t(2), of 8080]
      dec [OF t(1), of 80] nan dflt
    by (simp add: show_int_examples show_int_80)
qed

text \<open>
  C2, as stated: config resolution fails when the server name, the database name, the user
  name or the password is absent. With all four absent (and no \<^verbatim>\<open>PORT\<close>),
  \<^verbatim>\<open>createSqlConfig\<close> returns a config.
\<close>

theorem createSqlConfig_empty_environment:
  "createSqlConfig Map.empty ''linux'' =
     Inr \<lparr> server = None, port = 1433, database = None, user = None, password = None,
           options = \<lparr> encrypt = True, trustServerCertificate = False,
                       enableArithAbort = True, cryptoMinVersion = None \<rparr>,
           connectionTimeout = Num 30000, requestTimeout = Num 30000,
           pool = \<lparr> pool_max = 10, pool_min = 0, idleTimeoutMillis = 30000,
                    acquireTimeoutMillis = Num 30000 \<rparr> \<rparr>"
  by (simp add: createSqlConfig_def resolve_port_def resolve_timeout_def
      env_lower_is_true_def truthy_def times1000_def to_num_def Let_def)

text \<open>
  C2, amended: \<^verbatim>\<open>createSqlConfig\<close> fails exactly when the port check rejects the
  port. The four required fields are not checked: the config it returns carries
  \<^verbatim>\<open>SERVER_NAME\<close>, \<^verbatim>\<open>DATABASE_NAME\<close>, \<^verbatim>\<open>SQL_USERNAME\<close> and \<^verbatim>\<open>SQL_PASSWORD\<close>
  as the environment has them, absent where the variable is absent, and with no
  \<^verbatim>\<open>PORT\<close> set a config with port 1433 is always returned.
\<close>

theorem createSqlConfig_required_fields_unchecked:
  "isl (createSqlConfig e plat) = port_invalid e
   \<and> (\<forall>cfg. createSqlConfig e plat = Inr cfg \<longrightarrow>
         server cfg = e ''SERVER_NAME'' \<and> database cfg = e ''DATABASE_NAME''
       \<and> user cfg = e ''SQL_USERNAME'' \<and> password cfg = e ''SQL_PASSWORD'')
   \<and> (\<not> truthy (e ''PORT'') \<longrightarrow> (\<exists>cfg. createSqlConfig e plat = Inr cfg \<and> port cfg = 1433))"
proof -
  have a: "isl (createSqlConfig e plat) = port_invalid e" by (rule createSqlConfig_fails_iff)
  have b: "server cfg = e ''SERVER_NAME'' \<and> database cfg = e ''DATABASE_NAME''
       \<and> user cfg = e ''SQL_USERNAME'' \<and> password cfg = e ''SQL_PASSWORD''"
    if c: "createSqlConfig e plat = Inr cfg" for cfg
  proof -
    from c have "\<not> port_invalid e" using a by simp
    from createSqlConfig_port_valid [OF this, of plat] c show ?thesis by auto
  qed
  have d: "\<exists>cfg. createSqlConfig e plat = Inr cfg \<and> port cfg = 1433" if "\<not> truthy (e ''PORT'')"
  proof -
    from that have p: "resolve_port e = Some 1433" by (rule port_default)
    then have "\<not> port_invalid e" by (simp add: port_invalid_def)
    from createSqlConfig_port_valid [OF this, of plat] p show ?thesis by auto
  qed
  show ?thesis using a b d by blast
qed

theorem createSqlConfig_required_fields_unchecked_witness:
  "\<not> truthy (Map.empty ''PORT'')
   \<and> (\<exists>cfg. createSqlConfig Map.empty ''darwin'' = Inr cfg \<and> port cfg = 1433
           \<and> server cfg = None \<and> database cfg = None \<and> user cfg = None \<and> password cfg = None)"
proof -
  have n: "\<not> truthy ((Map.empty :: environment) ''PORT'')" by (simp add: truthy_def)
  note t = createSqlConfig_required_fields_unchecked [of Map.empty "''darwin''"]
  from t n obtain cfg where c: "createSqlConfig Map.empty ''darwin'' = Inr cfg" "port cfg = 1433"
    by blast
  from t c(1) have "server cfg = None \<and> database cfg = None \<and> user cfg = None \<and> password cfg = None"
    by blast
  with n c show ?thesis by blast
qed

section \<open>What becomes of a defunct pool\<close>

lemma stale_and_observer_paths:
  "(globalSqlPool w = Some p \<and> \<not> connected p \<longrightarrow>
       ensureSqlConnection x w
         = connect_loop x 1 None ((emit (Close (pool_id p)) w)\<lparr>globalSqlPool := None\<rparr>)
     \<and> (\<exists>es. events (snd (ensureSqlConnection x w)) = events w @ Close (pool_id p) # es)
     \<and> ensureSqlConnection x (w\<lparr>globalSqlPool := Some (p\<lparr>close_error := ce\<rparr>)\<rparr>)
         = ensureSqlConnection x w
     \<and> (case fst (ensureSqlConnection x w) of
           Inl e \<Rightarrow> globalSqlPool (snd (ensureSqlConnection x w)) = None
         | Inr u \<Rightarrow> \<exists>k q. k < 3 \<and> attempt_outcome x w k = Inr q
                       \<and> globalSqlPool (snd (ensureSqlConnection x w)) = Some q))
   \<and> (pid \<in> set (observers w) \<longrightarrow>
       globalSqlPool (pool_error_fires pid w) = None
     \<and> ensureSqlConnection x (pool_error_fires pid w)
         = connect_loop x 1 None (w\<lparr>globalSqlPool := None\<rparr>)
     \<and> (case fst (ensureSqlConnection x (pool_error_fires pid w)) of
           Inl e \<Rightarrow> globalSqlPool (snd (ensureSqlConnection x (pool_error_fires pid w))) = None
         | Inr u \<Rightarrow> \<exists>k q. k < 3 \<and> attempt_outcome x w k = Inr q
                       \<and> globalSqlPool (snd (ensureSqlConnection x (pool_error_fires pid w))) = Some q))"
proof (intro conjI impI)
  assume a: "globalSqlPool w = Some p \<and> \<not> connected p"
  then have nr: "\<forall>q. globalSqlPool w = Some q \<longrightarrow> \<not> connected q" by simp
  show eq: "ensureSqlConnection x w
         = connect_loop x 1 None ((emit (Close (pool_id p)) w)\<lparr>globalSqlPool := None\<rparr>)"
    using ensure_not_ready [OF nr, of x] a by (simp add: close_old_pool_Some)
  obtain es where "events (snd (connect_loop x 1 None (close_old_pool w))) = events (close_old_pool w) @ es"
    using sequence_extends_trace [of x "close_old_pool w"] by blast
  then show "\<exists>es. events (snd (ensureSqlConnection x w)) = events w @ Close (pool_id p) # es"
    using ensure_not_ready [OF nr, of x] a by (simp add: events_close_old_pool)
  show "ensureSqlConnection x (w\<lparr>globalSqlPool := Some (p\<lparr>close_error := ce\<rparr>)\<rparr>)
         = ensureSqlConnection x w"
    using a by (simp add: ensureSqlConnection_def close_old_pool_def emit_def)
  show "case fst (ensureSqlConnection x w) of
           Inl e \<Rightarrow> globalSqlPool (snd (ensureSqlConnection x w)) = None
         | Inr u \<Rightarrow> \<exists>k q. k < 3 \<and> attempt_outcome x w k = Inr q
                       \<and> globalSqlPool (snd (ensureSqlConnection x w)) = Some q"
    using nr by (rule ensure_pool_after)
next
  assume o: "pid \<in> set (observers w)"
  let ?w = "pool_error_fires pid w"
  have w: "?w = w\<lparr>globalSqlPool := None\<rparr>" using o by (simp add: pool_error_fires_def)
  show "globalSqlPool ?w = None" by (simp add: w)
  show "ensureSqlConnection x ?w = connect_loop x 1 None (w\<lparr>globalSqlPool := None\<rparr>)"
    by (simp add: w ensure_absent)
  have nr: "\<forall>q. globalSqlPool ?w = Some q \<longrightarrow> \<not> connected q" by (simp add: w)
  have ao: "attempt_outcome x ?w k = attempt_outcome x w k" for k
    by (simp add: w attempt_outcome_def cong: sum.case_cong)
  show "case fst (ensureSqlConnection x ?w) of
           Inl e \<Rightarrow> globalSqlPool (snd (ensureSqlConnection x ?w)) = None
         | Inr u \<Rightarrow> \<exists>k q. k < 3 \<and> attempt_outcome x w k = Inr q
                       \<and> globalSqlPool (snd (ensureSqlConnection x ?w)) = Some q"
    using ensure_pool_after [OF nr, of x] unfolding ao .
qed

lemma ensure_global:
  assumes "\<forall>p. globalSqlPool w = Some p \<longrightarrow> \<not> connected p"
    and "createSqlConfig (env w) (platform w) = Inr cfg"
  shows "fst (ensureSqlConnection driver_global w) = Inr ()"
    and "globalSqlPool (snd (ensureSqlConnection driver_global w)) = Some (example_pool 7)"
proof -
  have o: "attempt_outcome driver_global (close_old_pool w) 0 = Inr (example_pool 7)"
    using assms(2) by (simp add: attempt_outcome_def driver_global_def)
  have "ensureSqlConnection driver_global w
          = (Inr (), install_pool (example_pool 7) (attempt_state (close_old_pool w)))"
    using ensure_not_ready [OF assms(1), of driver_global] loop_ok1 [OF o] by simp
  then show "fst (ensureSqlConnection driver_global w) = Inr ()"
    and "globalSqlPool (snd (ensureSqlConnection driver_global w)) = Some (example_pool 7)"
    by simp_all
qed

lemma observer_example:
  "globalSqlPool (snd (ensureSqlConnection driver_up
     (pool_error_fires 7 (install_pool stale_pool (startup example_env ''linux'')))))
     = Some (example_pool 0)"
proof -
  let ?w = "(install_pool stale_pool (startup example_env ''linux''))\<lparr>globalSqlPool := None\<rparr>"
  have w: "pool_error_fires 7 (install_pool stale_pool (startup example_env ''linux'')) = ?w"
    by (simp add: pool_error_fires_def install_pool_def stale_pool_def)
  have o: "attempt_outcome driver_up ?w 0 = Inr (example_pool 0)"
    by (simp add: attempt_outcome_def install_pool_def startup_def createSqlConfig_example driver_up_def)
  have n: "globalSqlPool ?w = None" by simp
  have "ensureSqlConnection driver_up ?w = (Inr (), install_pool (example_pool 0) (attempt_state ?w))"
    using ensure_absent [OF n, of driver_up] loop_ok1 [OF o] by simp
  then show ?thesis unfolding w by simp
qed

text \<open>
  C5, as stated: a defunct pool is never reused, and after the error observer has fired
  the next \<^verbatim>\<open>ensureSqlConnection\<close> connects on a new pool. The pool held afterwards
  is the one \<^verbatim>\<open>sql.connect\<close> returns, whichever it is. With a driver that hands back
  the pool object it already has, the stale pool 7 is closed and then held again, and
  after the observer of pool 7 has fired (which clears the reference and closes nothing)
  the next \<^verbatim>\<open>ensureSqlConnection\<close> holds pool 7 again.
\<close>

theorem defunct_pool_held_again:
  "globalSqlPool (install_pool stale_pool (startup example_env ''linux'')) = Some stale_pool
   \<and> \<not> connected stale_pool
   \<and> globalSqlPool (snd (ensureSqlConnection driver_global
        (install_pool stale_pool (startup example_env ''linux'')))) = Some (example_pool 7)
   \<and> pool_id (example_pool 7) = pool_id stale_pool
   \<and> globalSqlPool (install_pool (example_pool 7) (startup example_env ''linux'')) = Some (example_pool 7)
   \<and> globalSqlPool (pool_error_fires 7 (install_pool (example_pool 7) (startup example_env ''linux''))) = None
   \<and> globalSqlPool (snd (ensureSqlConnection driver_global
        (pool_error_fires 7 (install_pool (example_pool 7) (startup example_env ''linux'')))))
       = Some (example_pool 7)"
proof -
  let ?w0 = "startup example_env ''linux''"
  let ?ws = "install_pool stale_pool ?w0"
  let ?wo = "pool_error_fires 7 (install_pool (example_pool 7) ?w0)"
  have s: "\<forall>p. globalSqlPool ?ws = Some p \<longrightarrow> \<not> connected p"
    by (simp add: stale_pool_def)
  have cs: "createSqlConfig (env ?ws) (platform ?ws) = Inr (projr (createSqlConfig example_env ''linux''))"
    by (simp add: install_pool_def startup_simps createSqlConfig_example)
  have wo: "?wo = (install_pool (example_pool 7) ?w0)\<lparr>globalSqlPool := None\<rparr>"
    by (simp add: pool_error_fires_def install_pool_def example_pool_def)
  have o: "\<forall>p. globalSqlPool ?wo = Some p \<longrightarrow> \<not> connected p"
    unfolding wo by simp
  have co: "createSqlConfig (env ?wo) (platform ?wo) = Inr (projr (createSqlConfig example_env ''linux''))"
    unfolding wo by (simp add: install_pool_def startup_simps createSqlConfig_example)
  have i: "pool_id (example_pool 7) = pool_id stale_pool"
    by (simp add: example_pool_def stale_pool_def)
  show ?thesis
    using ensure_global(2) [OF s cs] ensure_global(2) [OF o co] i
    by (simp add: wo stale_pool_def)
qed

text \<open>
  C5, amended: when \<^verbatim>\<open>ensureSqlConnection\<close> finds a held pool whose
  \<^verbatim>\<open>connected\<close> flag is not set, the first thing it does is call \<^verbatim>\<open>close()\<close> on
  that pool; whatever \<^verbatim>\<open>close()\<close> throws changes nothing; the reference is cleared,
  and the connection sequence then starts at attempt 1 from the state with no pool. After
  the error observer of a pool has fired, the reference is absent and the next
  \<^verbatim>\<open>ensureSqlConnection\<close> is again a connection sequence from attempt 1. In both cases
  the reference afterwards is absent (the sequence failed) or holds the pool that one of
  this sequence's driver calls returned; it is a pool other than the defunct one whenever
  the driver's calls return pools other than the defunct one, which the code does not
  check.
\<close>

theorem defunct_pool_reference_dropped:
  "(globalSqlPool w = Some p \<and> \<not> connected p \<longrightarrow>
       ensureSqlConnection x w
         = connect_loop x 1 None ((emit (Close (pool_id p)) w)\<lparr>globalSqlPool := None\<rparr>)
     \<and> (\<exists>es. events (snd (ensureSqlConnection x w)) = events w @ Close (pool_id p) # es)
     \<and> ensureSqlConnection x (w\<lparr>globalSqlPool := Some (p\<lparr>close_error := ce\<rparr>)\<rparr>)
         = ensureSqlConnection x w
     \<and> (case fst (ensureSqlConnection x w) of
           Inl e \<Rightarrow> globalSqlPool (snd (ensureSqlConnection x w)) = None
         | Inr u \<Rightarrow> \<exists>k q. k < 3 \<and> attempt_outcome x w k = Inr q
                       \<and> globalSqlPool (snd (ensureSqlConnection x w)) = Some q))
   \<and> (pid \<in> set (observers w) \<longrightarrow>
       globalSqlPool (pool_error_fires pid w) = None
     \<and> ensureSqlConnection x (pool_error_fires pid w)
         = connect_loop x 1 None (w\<lparr>globalSqlPool := None\<rparr>)
     \<and> (case fst (ensureSqlConnection x (pool_error_fires pid w)) of
           Inl e \<Rightarrow> globalSqlPool (snd (ensureSqlConnection x (pool_error_fires pid w))) = None
         | Inr u \<Rightarrow> \<exists>k q. k < 3 \<and> attempt_outcome x w k = Inr q
                       \<and> globalSqlPool (snd (ensureSqlConnection x (pool_error_fires pid w))) = Some q))
   \<and> (globalSqlPool w = Some p \<and> \<not> connected p
        \<and> (\<forall>k q. k < 3 \<and> attempt_outcome x w k = Inr q \<longrightarrow> pool_id q \<noteq> pool_id p) \<longrightarrow>
       (\<forall>q. globalSqlPool (snd (ensureSqlConnection x w)) = Some q \<longrightarrow> pool_id q \<noteq> pool_id p))
   \<and> (pid \<in> set (observers w)
        \<and> (\<forall>k q. k < 3 \<and> attempt_outcome x w k = Inr q \<longrightarrow> pool_id q \<noteq> pid) \<longrightarrow>
       (\<forall>q. globalSqlPool (snd (ensureSqlConnection x (pool_error_fires pid w))) = Some q \<longrightarrow>
            pool_id q \<noteq> pid))"
proof -
  note old = stale_and_observer_paths [of w p x ce pid]
  have s: "pool_id q \<noteq> pool_id p"
    if a: "globalSqlPool w = Some p \<and> \<not> connected p
        \<and> (\<forall>k q. k < 3 \<and> attempt_outcome x w k = Inr q \<longrightarrow> pool_id q \<noteq> pool_id p)"
      and h: "globalSqlPool (snd (ensureSqlConnection x w)) = Some q" for q
  proof -
    from a have nr: "\<forall>q. globalSqlPool w = Some q \<longrightarrow> \<not> connected q" by simp
    from ensure_pool_after [OF nr, of x] h a show ?thesis
      by (auto split: sum.splits)
  qed
  have o: "pool_id q \<noteq> pid"
    if a: "pid \<in> set (observers w)
        \<and> (\<forall>k q. k < 3 \<and> attempt_outcome x w k = Inr q \<longrightarrow> pool_id q \<noteq> pid)"
      and h: "globalSqlPool (snd (ensureSqlConnection x (pool_error_fires pid w))) = Some q" for q
  proof -
    from a old
    have "case fst (ensureSqlConnection x (pool_error_fires pid w)) of
           Inl e \<Rightarrow> globalSqlPool (snd (ensureSqlConnection x (pool_error_fires pid w))) = None
         | Inr u \<Rightarrow> \<exists>k q. k < 3 \<and> attempt_outcome x w k = Inr q
                       \<and> globalSqlPool (snd (ensureSqlConnection x (pool_error_fires pid w))) = Some q"
      by blast
    with h a show ?thesis by (auto split: sum.splits)
  qed
  show ?thesis
    apply (intro conjI)
       apply (rule old [THEN conjunct1])
      apply (rule old [THEN conjunct2])
    using s apply blast
    using o apply blast
    done
qed

theorem defunct_pool_reference_dropped_witness:
  "globalSqlPool (install_pool stale_pool (startup example_env ''linux'')) = Some stale_pool
   \<and> \<not> connected stale_pool
   \<and> 7 \<in> set (observers (install_pool stale_pool (startup example_env ''linux'')))
   \<and> (\<exists>es. events (snd (ensureSqlConnection driver_up (install_pool stale_pool (startup example_env ''linux''))))
              = events (install_pool stale_pool (startup example_env ''linux'')) @ Close 7 # es)
   \<and> globalSqlPool (snd (ensureSqlConnection driver_up (install_pool stale_pool (startup example_env ''linux''))))
       = Some (example_pool 0)
   \<and> globalSqlPool (pool_error_fires 7 (install_pool stale_pool (startup example_env ''linux''))) = None
   \<and> globalSqlPool (snd (ensureSqlConnection driver_up
        (pool_error_fires 7 (install_pool stale_pool (startup example_env ''linux'')))))
       = Some (example_pool 0)
   \<and> pool_id (example_pool 0) \<noteq> pool_id stale_pool
   \<and> pool_id (example_pool 0) \<noteq> 7"
proof -
  let ?w = "install_pool stale_pool (startup example_env ''linux'')"
  have h: "globalSqlPool ?w = Some stale_pool" "\<not> connected stale_pool" "7 \<in> set (observers ?w)"
    by (simp_all add: install_pool_def stale_pool_def)
  have i: "pool_id stale_pool = 7" by (simp add: stale_pool_def)
  have fresh: "\<forall>k q. k < 3 \<and> attempt_outcome driver_up ?w k = Inr q \<longrightarrow> pool_id q \<noteq> 7"
    by (auto simp: attempt_outcome_def install_pool_def startup_def createSqlConfig_example
        driver_up_def example_pool_def)
  then have fresh': "\<forall>k q. k < 3 \<and> attempt_outcome driver_up ?w k = Inr q \<longrightarrow> pool_id q \<noteq> pool_id stale_pool"
    unfolding i .
  note t = defunct_pool_reference_dropped [of ?w stale_pool driver_up None 7]
  from t h(1,2)
  have "\<exists>es. events (snd (ensureSqlConnection driver_up ?w)) = events ?w @ Close (pool_id stale_pool) # es"
    by blast
  then have a: "\<exists>es. events (snd (ensureSqlConnection driver_up ?w)) = events ?w @ Close 7 # es"
    unfolding i .
  from t h(3) have b: "globalSqlPool (pool_error_fires 7 ?w) = None"
    by blast
  from t h(1,2) fresh' stale_example(2) have c: "pool_id (example_pool 0) \<noteq> pool_id stale_pool"
    by blast
  from t h(3) fresh observer_example have d: "pool_id (example_pool 0) \<noteq> 7"
    by blast
  show ?thesis
    using h a b c d stale_example(2) observer_example by blast
qed

end
